theory Spec2Isabelle
  imports Complex_Main "HOL-Library.Monad_Syntax"
begin

section \<open>Python and numpy primitives\<close>

text \<open>
  Python integers are \<open>int\<close>. Floats are modelled as exact reals wherever a claim
  depends only on comparisons and on bounded integer scores; there an operation that
  raises in Python (\<^verbatim>\<open>ZeroDivisionError\<close>, \<^verbatim>\<open>IndexError\<close>) or that yields
  \<^verbatim>\<open>nan\<close> or \<^verbatim>\<open>inf\<close> in numpy by a zero denominator or an empty array is the
  value \<open>None\<close>, and every function that contains such an operation returns an option.

  The RSI is computed on \<open>float64\<close> values: a real below the overflow threshold of IEEE
  binary64, or one of \<^verbatim>\<open>inf\<close>, \<^verbatim>\<open>-inf\<close>, \<^verbatim>\<open>nan\<close>. A result whose magnitude reaches
  the threshold becomes an infinity, and the special values propagate as in IEEE
  arithmetic. Rounding to the nearest double, underflow and the sign of zero are not
  modelled.
\<close>

datatype float64 = Finite real | PosInf | NegInf | NaN

definition overflow_threshold :: real where
  \<comment> \<open>the least magnitude that rounds to an infinity: the largest double plus half an ulp\<close>
  "overflow_threshold = 2 ^ 1024 - 2 ^ 970"

definition to_float64 :: "real \<Rightarrow> float64" where
  "to_float64 x =
     (if overflow_threshold \<le> x then PosInf
      else if x \<le> - overflow_threshold then NegInf
      else Finite x)"

fun f64_neg :: "float64 \<Rightarrow> float64" where
  "f64_neg (Finite x) = Finite (- x)"
| "f64_neg PosInf = NegInf"
| "f64_neg NegInf = PosInf"
| "f64_neg NaN = NaN"

fun f64_add :: "float64 \<Rightarrow> float64 \<Rightarrow> float64" where
  "f64_add (Finite x) (Finite y) = to_float64 (x + y)"
| "f64_add NaN y = NaN"
| "f64_add x NaN = NaN"
| "f64_add PosInf NegInf = NaN"
| "f64_add NegInf PosInf = NaN"
| "f64_add PosInf y = PosInf"
| "f64_add x PosInf = PosInf"
| "f64_add NegInf y = NegInf"
| "f64_add x NegInf = NegInf"

definition f64_sub :: "float64 \<Rightarrow> float64 \<Rightarrow> float64" where
  "f64_sub x y = f64_add x (f64_neg y)"

fun f64_div :: "float64 \<Rightarrow> float64 \<Rightarrow> float64" where
  "f64_div (Finite x) (Finite y) =
     (if y = 0 then (if x = 0 then NaN else if 0 < x then PosInf else NegInf)
      else to_float64 (x / y))"
| "f64_div NaN y = NaN"
| "f64_div x NaN = NaN"
| "f64_div (Finite x) y = Finite 0"
| "f64_div PosInf (Finite y) = (if 0 \<le> y then PosInf else NegInf)"
| "f64_div NegInf (Finite y) = (if 0 \<le> y then NegInf else PosInf)"
| "f64_div PosInf PosInf = NaN"
| "f64_div PosInf NegInf = NaN"
| "f64_div NegInf PosInf = NaN"
| "f64_div NegInf NegInf = NaN"

fun f64_lt :: "float64 \<Rightarrow> float64 \<Rightarrow> bool" where
  "f64_lt (Finite x) (Finite y) = (x < y)"
| "f64_lt NaN y = False"
| "f64_lt x NaN = False"
| "f64_lt PosInf y = False"
| "f64_lt x PosInf = True"
| "f64_lt x NegInf = False"
| "f64_lt NegInf y = True"

definition f64_gt :: "float64 \<Rightarrow> float64 \<Rightarrow> bool" where
  "f64_gt x y = f64_lt y x"

definition truthy :: "float64 \<Rightarrow> bool" where
  \<comment> \<open>\<^verbatim>\<open>bool(x)\<close>: every float but zero, \<^verbatim>\<open>nan\<close> included\<close>
  "truthy x = (x \<noteq> Finite 0)"

definition last_n :: "nat \<Rightarrow> 'a list \<Rightarrow> 'a list" where
  \<comment> \<open>\<^verbatim>\<open>xs[-n:]\<close> for \<open>n > 0\<close>\<close>
  "last_n n xs = drop (length xs - n) xs"

definition py_index :: "'a list \<Rightarrow> int \<Rightarrow> 'a option" where
  \<comment> \<open>\<^verbatim>\<open>xs[i]\<close>, a negative \<open>i\<close> counting from the end\<close>
  "py_index xs i =
     (let k = (if i < 0 then int (length xs) + i else i)
      in if k < 0 \<or> int (length xs) \<le> k then None else Some (xs ! nat k))"

definition true_div :: "real \<Rightarrow> real \<Rightarrow> real option" where
  \<comment> \<open>\<^verbatim>\<open>x / y\<close>\<close>
  "true_div x y = (if y = 0 then None else Some (x / y))"

definition np_mean :: "real list \<Rightarrow> real option" where
  "np_mean xs = (if xs = [] then None else Some (sum_list xs / real (length xs)))"

definition np_diff :: "float64 list \<Rightarrow> float64 list" where
  "np_diff xs = map (\<lambda>(a, b). f64_sub b a) (zip xs (tl xs))"

definition np_sum64 :: "float64 list \<Rightarrow> float64" where
  \<comment> \<open>numpy adds pairwise; on the non-negative gains and losses the order of the additions
      does not change whether the sum overflows\<close>
  "np_sum64 xs = fold (\<lambda>x acc. f64_add acc x) xs (Finite 0)"

definition np_mean64 :: "float64 list \<Rightarrow> float64" where
  \<comment> \<open>the mean of a float64 array; \<^verbatim>\<open>nan\<close> for an empty one\<close>
  "np_mean64 xs = f64_div (np_sum64 xs) (Finite (real (length xs)))"

definition round_half_even :: "real \<Rightarrow> int" where
  \<comment> \<open>\<^verbatim>\<open>round(x)\<close>: to the nearest integer, ties to the even one\<close>
  "round_half_even x =
     (let f = \<lfloor>x\<rfloor>; d = x - of_int f
      in if d < 1 / 2 then f
         else if d > 1 / 2 then f + 1
         else if even f then f else f + 1)"

definition py_round :: "real \<Rightarrow> nat \<Rightarrow> real" where
  \<comment> \<open>\<^verbatim>\<open>round(x, nd)\<close>\<close>
  "py_round x nd = of_int (round_half_even (x * 10 ^ nd)) / 10 ^ nd"

definition f64_round :: "float64 \<Rightarrow> nat \<Rightarrow> float64" where
  \<comment> \<open>\<^verbatim>\<open>round(x, nd)\<close> of a numpy float64: scale, round to an integer, scale back\<close>
  "f64_round x nd =
     (case x of
        Finite v \<Rightarrow>
          (case to_float64 (v * 10 ^ nd) of
             Finite w \<Rightarrow> Finite (of_int (round_half_even w) / 10 ^ nd)
           | other \<Rightarrow> other)
      | other \<Rightarrow> other)"

section \<open>Data model\<close>

datatype direction = bullish | bearish | neutral

datatype trend = increasing | decreasing | stable

record candle =
  timestamp :: int
  c_open :: real
  c_high :: real
  c_low :: real
  c_close :: real
  c_volume :: real

record macd_values =
  macd_line :: real
  signal_line :: real
  histogram :: real

record volume_analysis =
  trend :: trend
  ratio :: real
  recent_average :: "real option"
  overall_average :: "real option"

text \<open>
  The indicator dictionary. A key that is absent is \<open>None\<close>; the \<^verbatim>\<open>ema\<close> and
  \<^verbatim>\<open>sma\<close> dictionaries are association lists from period to value.
\<close>

record indicators =
  rsi :: "float64 option"
  macd :: "macd_values option"
  ema :: "(nat \<times> real) list"
  sma :: "(nat \<times> real) list"
  volume :: "volume_analysis option"

record probabilities =
  bullish_p :: real
  bearish_p :: real
  neutral_p :: real

record prediction =
  direction :: direction
  confidence :: real
  probs :: probabilities

record hybrid_prediction = prediction +
  model_agreement :: bool
  transformer_signal :: direction
  lgbm_signal :: direction

definition prob_of :: "probabilities \<Rightarrow> direction \<Rightarrow> real" where
  \<comment> \<open>\<^verbatim>\<open>probabilities[direction]\<close>\<close>
  "prob_of p d = (case d of bullish \<Rightarrow> bullish_p p | bearish \<Rightarrow> bearish_p p | neutral \<Rightarrow> neutral_p p)"

section \<open>indicators/calculator.py\<close>

definition calculate_rsi :: "real list \<Rightarrow> nat \<Rightarrow> float64" where
  "calculate_rsi closes period =
     (if length closes < period + 1 then Finite 50
      else
        let changes = np_diff (map Finite (last_n (period + 1) closes));
            gains = map (\<lambda>c. if f64_gt c (Finite 0) then c else Finite 0) changes;
            losses = map (\<lambda>c. if f64_lt c (Finite 0) then f64_neg c else Finite 0) changes;
            avg_gain = np_mean64 gains;
            avg_loss = np_mean64 losses
        in if avg_loss = Finite 0 then Finite 100
           else
             let rs = f64_div avg_gain avg_loss;
                 r = f64_sub (Finite 100) (f64_div (Finite 100) (f64_add (Finite 1) rs))
             in f64_round r 2)"

definition ema_of :: "real list \<Rightarrow> nat \<Rightarrow> real option" where
  \<comment> \<open>\<^verbatim>\<open>_ema\<close>\<close>
  "ema_of data period =
     (if length data < period then (if data \<noteq> [] then py_index data (- 1) else Some 0)
      else do {
        multiplier \<leftarrow> true_div 2 (real period + 1);
        start \<leftarrow> np_mean (take period data);
        Some (fold (\<lambda>price e. price * multiplier + e * (1 - multiplier)) (drop period data) start)
      })"

definition calculate_macd :: "real list \<Rightarrow> nat \<Rightarrow> nat \<Rightarrow> nat \<Rightarrow> macd_values option" where
  "calculate_macd closes fast slow signal =
     (if length closes < slow + signal
      then Some \<lparr>macd_line = 0, signal_line = 0, histogram = 0\<rparr>
      else do {
        ema_fast \<leftarrow> ema_of closes fast;
        ema_slow \<leftarrow> ema_of closes slow;
        let ml = ema_fast - ema_slow;
            sl = ml * 0.9;
            h = ml - sl
        in Some \<lparr>macd_line = py_round ml 4, signal_line = py_round sl 4,
                  histogram = py_round h 4\<rparr>
      })"

fun emas_for :: "real list \<Rightarrow> nat list \<Rightarrow> (nat \<times> real) list option" where
  "emas_for closes [] = Some []"
| "emas_for closes (period # periods) =
     (if length closes \<ge> period
      then do {
        e \<leftarrow> ema_of closes period;
        rest \<leftarrow> emas_for closes periods;
        Some ((period, py_round e 4) # rest)
      }
      else emas_for closes periods)"

definition calculate_emas :: "real list \<Rightarrow> (nat \<times> real) list option" where
  "calculate_emas closes = emas_for closes [9, 20, 50, 200]"

fun smas_for :: "real list \<Rightarrow> nat list \<Rightarrow> (nat \<times> real) list option" where
  "smas_for closes [] = Some []"
| "smas_for closes (period # periods) =
     (if length closes \<ge> period
      then do {
        m \<leftarrow> np_mean (last_n period closes);
        rest \<leftarrow> smas_for closes periods;
        Some ((period, py_round m 4) # rest)
      }
      else smas_for closes periods)"

definition calculate_smas :: "real list \<Rightarrow> (nat \<times> real) list option" where
  "calculate_smas closes = smas_for closes [20, 50, 200]"

definition analyze_volume :: "real list \<Rightarrow> volume_analysis option" where
  "analyze_volume volumes =
     (if length volumes < 5
      then Some \<lparr>trend = stable, ratio = 1, recent_average = None, overall_average = None\<rparr>
      else do {
        recent_vol \<leftarrow> np_mean (last_n 5 volumes);
        avg_vol \<leftarrow> (if length volumes \<ge> 20 then np_mean (last_n 20 volumes)
                    else np_mean volumes);
        r \<leftarrow> (if avg_vol > 0 then true_div recent_vol avg_vol else Some 1);
        let t = (if r > 1.2 then increasing else if r < 0.8 then decreasing else stable)
        in Some \<lparr>trend = t, ratio = py_round r 2,
                  recent_average = Some (py_round recent_vol 2),
                  overall_average = Some (py_round avg_vol 2)\<rparr>
      })"

definition no_indicators :: indicators where
  \<comment> \<open>the empty dictionary \<^verbatim>\<open>{}\<close>\<close>
  "no_indicators = \<lparr>rsi = None, macd = None, ema = [], sma = [], volume = None\<rparr>"

definition calculate_all :: "candle list \<Rightarrow> indicators option" where
  "calculate_all candles =
     (if candles = [] then Some no_indicators
      else
        let closes = map c_close candles;
            volumes = map c_volume candles
        in do {
          m \<leftarrow> calculate_macd closes 12 26 9;
          e \<leftarrow> calculate_emas closes;
          s \<leftarrow> calculate_smas closes;
          v \<leftarrow> analyze_volume volumes;
          Some \<lparr>rsi = Some (calculate_rsi closes 14), macd = Some m, ema = e, sma = s,
                volume = Some v\<rparr>
        })"

section \<open>models/patchtst\_predictor.py\<close>

definition patchtst_neutral_prediction :: prediction where
  "patchtst_neutral_prediction =
     \<lparr>direction = neutral, confidence = 33,
      probs = \<lparr>bullish_p = 0.33, bearish_p = 0.33, neutral_p = 0.34\<rparr>\<rparr>"

definition patchtst_extract_features :: "candle list \<Rightarrow> real list list" where
  "patchtst_extract_features candles =
     map (\<lambda>c. [c_open c, c_high c, c_low c, c_close c, c_volume c]) (last_n 60 candles)"

definition patchtst_momentum :: "candle list \<Rightarrow> real option" where
  "patchtst_momentum candles =
     (let recent_closes = map c_close (last_n 10 candles)
      in if length recent_closes \<ge> 2
         then do {
           c0 \<leftarrow> py_index recent_closes 0;
           if c0 \<noteq> 0
           then do { cl \<leftarrow> py_index recent_closes (- 1); true_div (cl - c0) c0 }
           else Some 0
         }
         else Some 0)"

text \<open>
  The two accumulators \<^verbatim>\<open>bullish_score\<close> and \<^verbatim>\<open>bearish_score\<close> are a pair that
  each contribution of the source updates in turn.
\<close>

definition momentum_contribution :: "real \<Rightarrow> int \<times> int \<Rightarrow> int \<times> int" where
  "momentum_contribution momentum s =
     (if momentum > 0.01 then (fst s + 25, snd s)
      else if momentum < - 0.01 then (fst s, snd s + 25)
      else s)"

definition candle_contribution :: "int \<Rightarrow> int \<Rightarrow> int \<times> int \<Rightarrow> int \<times> int" where
  "candle_contribution bullish_count bearish_count s =
     (fst s + bullish_count * 8, snd s + bearish_count * 8)"

definition rsi_contribution :: "float64 \<Rightarrow> int \<times> int \<Rightarrow> int \<times> int" where
  "rsi_contribution r s =
     (if truthy r \<and> f64_lt r (Finite 30) then (fst s + 15, snd s)
      else if truthy r \<and> f64_gt r (Finite 70) then (fst s, snd s + 15)
      else if truthy r
      then (if f64_gt r (Finite 50) then (fst s + 5, snd s) else (fst s, snd s + 5))
      else s)"

definition macd_contribution :: "real \<Rightarrow> int \<times> int \<Rightarrow> int \<times> int" where
  "macd_contribution macd_histogram s =
     (if macd_histogram > 0 then (fst s + 10, snd s)
      else if macd_histogram < 0 then (fst s, snd s + 10)
      else s)"

definition patchtst_scores :: "candle list \<Rightarrow> indicators \<Rightarrow> (int \<times> int) option" where
  \<comment> \<open>\<^verbatim>\<open>(bullish_score, bearish_score)\<close> before normalisation\<close>
  "patchtst_scores candles ind = do {
     momentum \<leftarrow> patchtst_momentum candles;
     let last_candles = last_n 5 candles;
         bullish_count = int (length (filter (\<lambda>c. c_close c > c_open c) last_candles));
         bearish_count = int (length last_candles) - bullish_count;
         r = (case rsi ind of None \<Rightarrow> Finite 50 | Some v \<Rightarrow> v);
         macd_histogram = (case macd ind of None \<Rightarrow> 0 | Some m \<Rightarrow> histogram m)
     in Some (macd_contribution macd_histogram
               (rsi_contribution r
                 (candle_contribution bullish_count bearish_count
                   (momentum_contribution momentum (0, 0)))))
   }"

definition patchtst_raw_probs :: "candle list \<Rightarrow> indicators \<Rightarrow> (real \<times> real \<times> real) option" where
  \<comment> \<open>\<^verbatim>\<open>(bullish_prob, bearish_prob, neutral_prob)\<close>\<close>
  "patchtst_raw_probs candles ind = do {
     s \<leftarrow> patchtst_scores candles ind;
     let total_score = fst s + snd s + 20 in do {
       bullish_prob \<leftarrow> true_div (of_int (fst s)) (of_int total_score);
       bearish_prob \<leftarrow> true_div (of_int (snd s)) (of_int total_score);
       Some (bullish_prob, bearish_prob, 1 - bullish_prob - bearish_prob)
     }
   }"

definition patchtst_direction :: "real \<Rightarrow> real \<Rightarrow> real \<Rightarrow> direction \<times> real" where
  \<comment> \<open>\<^verbatim>\<open>(direction, confidence)\<close>\<close>
  "patchtst_direction bullish_prob bearish_prob neutral_prob =
     (if bullish_prob > bearish_prob \<and> bullish_prob > 0.4 then (bullish, bullish_prob * 100)
      else if bearish_prob > bullish_prob \<and> bearish_prob > 0.4 then (bearish, bearish_prob * 100)
      else (neutral, neutral_prob * 100))"

definition analyze_patterns :: "real list list \<Rightarrow> candle list \<Rightarrow> indicators \<Rightarrow> prediction option" where
  "analyze_patterns features candles ind =
     (if length candles < 5 then Some patchtst_neutral_prediction
      else do {
        p \<leftarrow> patchtst_raw_probs candles ind;
        let bullish_prob = fst p;
            bearish_prob = fst (snd p);
            neutral_prob = snd (snd p);
            dc = patchtst_direction bullish_prob bearish_prob neutral_prob
        in Some \<lparr>direction = fst dc, confidence = min (snd dc) 90,
                  probs = \<lparr>bullish_p = bullish_prob, bearish_p = bearish_prob,
                            neutral_p = max neutral_prob 0.1\<rparr>\<rparr>
      })"

definition patchtst_predict :: "candle list \<Rightarrow> indicators \<Rightarrow> prediction option" where
  "patchtst_predict candles ind =
     (let features = patchtst_extract_features candles
      in analyze_patterns features candles ind)"

section \<open>models/lightgbm\_classifier.py\<close>

definition lgbm_neutral_prediction :: prediction where
  "lgbm_neutral_prediction =
     \<lparr>direction = neutral, confidence = 33,
      probs = \<lparr>bullish_p = 0.33, bearish_p = 0.33, neutral_p = 0.34\<rparr>\<rparr>"

record features =
  f_rsi :: float64
  f_macd_hist :: real
  f_ema_trend :: real
  f_volume_ratio :: real
  f_body_size :: real
  f_wick_ratio :: real
  f_momentum_5 :: real
  f_momentum_10 :: real

definition lgbm_extract_features :: "candle list \<Rightarrow> indicators \<Rightarrow> features option" where
  "lgbm_extract_features candles ind = do {
     last_candle \<leftarrow> py_index candles (- 1);
     let prev_candles = (if length candles \<ge> 10 then last_n 10 candles else candles);
         r = (case rsi ind of
                None \<Rightarrow> Finite 0.5
              | Some v \<Rightarrow> if truthy v then f64_div v (Finite 100) else Finite 0.5);
         macd_hist = (case macd ind of None \<Rightarrow> 0 | Some m \<Rightarrow> histogram m);
         ema_20 = (case map_of (ema ind) 20 of None \<Rightarrow> 0 | Some v \<Rightarrow> v);
         close = c_close last_candle
     in do {
       ema_trend \<leftarrow> (if ema_20 \<noteq> 0 then true_div (close - ema_20) ema_20 else Some 0);
       let volumes = map c_volume prev_candles in do {
         avg_volume \<leftarrow> (if volumes \<noteq> [] then np_mean volumes else Some 1);
         volume_ratio \<leftarrow> (if avg_volume \<noteq> 0 then true_div (c_volume last_candle) avg_volume
                          else Some 1);
         let body_size = \<bar>c_close last_candle - c_open last_candle\<bar>;
             high_low = c_high last_candle - c_low last_candle
         in do {
           wick_ratio \<leftarrow> (if high_low \<noteq> 0 then true_div (high_low - body_size) high_low
                          else Some 0);
           let closes = map c_close prev_candles in do {
             momentum_5 \<leftarrow>
               (if length closes \<ge> 5
                then do {
                  c5 \<leftarrow> py_index closes (- 5);
                  if c5 \<noteq> 0
                  then do { cl \<leftarrow> py_index closes (- 1); true_div (cl - c5) c5 }
                  else Some 0
                }
                else Some 0);
             c0 \<leftarrow> py_index closes 0;
             momentum_10 \<leftarrow>
               (if c0 \<noteq> 0
                then do { cl \<leftarrow> py_index closes (- 1); true_div (cl - c0) c0 }
                else Some 0);
             Some \<lparr>f_rsi = r, f_macd_hist = macd_hist, f_ema_trend = ema_trend,
                   f_volume_ratio = volume_ratio, f_body_size = body_size,
                   f_wick_ratio = wick_ratio, f_momentum_5 = momentum_5,
                   f_momentum_10 = momentum_10\<rparr>
           }
         }
       }
     }
   }"

text \<open>
  The two counters \<^verbatim>\<open>bullish_signals\<close> and \<^verbatim>\<open>bearish_signals\<close> are a pair that
  each group of rules updates in turn.
\<close>

definition rsi_signals :: "float64 \<Rightarrow> int \<times> int \<Rightarrow> int \<times> int" where
  "rsi_signals r s =
     (if f64_lt r (Finite 0.3) then (fst s + 2, snd s)
      else if f64_gt r (Finite 0.7) then (fst s, snd s + 2)
      else if f64_gt r (Finite 0.5) then (fst s + 1, snd s)
      else (fst s, snd s + 1))"

definition macd_signals :: "real \<Rightarrow> int \<times> int \<Rightarrow> int \<times> int" where
  "macd_signals macd_hist s =
     (if macd_hist > 0 then (fst s + 1, snd s)
      else if macd_hist < 0 then (fst s, snd s + 1)
      else s)"

definition trend_signals :: "real \<Rightarrow> int \<times> int \<Rightarrow> int \<times> int" where
  "trend_signals ema_trend s =
     (if ema_trend > 0.02 then (fst s + 2, snd s)
      else if ema_trend < - 0.02 then (fst s, snd s + 2)
      else if ema_trend > 0 then (fst s + 1, snd s)
      else (fst s, snd s + 1))"

definition volume_signals :: "real \<Rightarrow> real \<Rightarrow> int \<times> int \<Rightarrow> int \<times> int" where
  "volume_signals volume_ratio momentum_5 s =
     (if volume_ratio > 1.2
      then (if momentum_5 > 0 then (fst s + 1, snd s)
            else if momentum_5 < 0 then (fst s, snd s + 1)
            else s)
      else s)"

definition momentum_5_signals :: "real \<Rightarrow> int \<times> int \<Rightarrow> int \<times> int" where
  "momentum_5_signals momentum_5 s =
     (if momentum_5 > 0.02 then (fst s + 2, snd s)
      else if momentum_5 < - 0.02 then (fst s, snd s + 2)
      else s)"

definition momentum_10_signals :: "real \<Rightarrow> int \<times> int \<Rightarrow> int \<times> int" where
  "momentum_10_signals momentum_10 s =
     (if momentum_10 > 0.03 then (fst s + 1, snd s)
      else if momentum_10 < - 0.03 then (fst s, snd s + 1)
      else s)"

definition lgbm_signals :: "features \<Rightarrow> int \<times> int" where
  \<comment> \<open>\<^verbatim>\<open>(bullish_signals, bearish_signals)\<close> before normalisation\<close>
  "lgbm_signals f =
     momentum_10_signals (f_momentum_10 f)
       (momentum_5_signals (f_momentum_5 f)
         (volume_signals (f_volume_ratio f) (f_momentum_5 f)
           (trend_signals (f_ema_trend f)
             (macd_signals (f_macd_hist f)
               (rsi_signals (f_rsi f) (0, 0))))))"

definition lgbm_raw_probs :: "features \<Rightarrow> (real \<times> real \<times> real) option" where
  \<comment> \<open>\<^verbatim>\<open>(bullish_prob, bearish_prob, neutral_prob)\<close>\<close>
  "lgbm_raw_probs f =
     (let s = lgbm_signals f;
          total = fst s + snd s + 3
      in do {
        bullish_prob \<leftarrow> true_div (of_int (fst s)) (of_int total);
        bearish_prob \<leftarrow> true_div (of_int (snd s)) (of_int total);
        Some (bullish_prob, bearish_prob, 1 - bullish_prob - bearish_prob)
      })"

definition lgbm_direction :: "real \<Rightarrow> real \<Rightarrow> int \<times> int \<Rightarrow> direction \<times> real" where
  \<comment> \<open>\<^verbatim>\<open>(direction, confidence)\<close>\<close>
  "lgbm_direction bullish_prob bearish_prob s =
     (if bullish_prob > bearish_prob \<and> fst s \<ge> 4 then (bullish, min (bullish_prob * 100) 85)
      else if bearish_prob > bullish_prob \<and> snd s \<ge> 4 then (bearish, min (bearish_prob * 100) 85)
      else (neutral, 50))"

definition rule_based_prediction :: "features \<Rightarrow> candle list \<Rightarrow> indicators \<Rightarrow> prediction option" where
  "rule_based_prediction f candles ind = do {
     p \<leftarrow> lgbm_raw_probs f;
     let bullish_prob = fst p;
         bearish_prob = fst (snd p);
         neutral_prob = snd (snd p);
         dc = lgbm_direction bullish_prob bearish_prob (lgbm_signals f)
     in Some \<lparr>direction = fst dc, confidence = snd dc,
               probs = \<lparr>bullish_p = bullish_prob, bearish_p = bearish_prob,
                         neutral_p = max neutral_prob 0.1\<rparr>\<rparr>
   }"

definition lgbm_predict :: "candle list \<Rightarrow> indicators \<Rightarrow> prediction option" where
  "lgbm_predict candles ind =
     (if length candles < 5 then Some lgbm_neutral_prediction
      else do {
        f \<leftarrow> lgbm_extract_features candles ind;
        rule_based_prediction f candles ind
      })"

section \<open>models/hybrid\_decision.py\<close>

definition transformer_weight :: real where
  "transformer_weight = 0.6"

definition lgbm_weight :: real where
  "lgbm_weight = 0.4"

definition weighted_average :: "probabilities \<Rightarrow> probabilities \<Rightarrow> probabilities option" where
  "weighted_average probs1 probs2 =
     (let rb = bullish_p probs1 * transformer_weight + bullish_p probs2 * lgbm_weight;
          rr = bearish_p probs1 * transformer_weight + bearish_p probs2 * lgbm_weight;
          rn = neutral_p probs1 * transformer_weight + neutral_p probs2 * lgbm_weight;
          total = rb + rr + rn
      in do {
        b \<leftarrow> true_div rb total;
        r \<leftarrow> true_div rr total;
        n \<leftarrow> true_div rn total;
        Some \<lparr>bullish_p = b, bearish_p = r, neutral_p = n\<rparr>
      })"

definition hybrid_decision :: "prediction \<Rightarrow> prediction \<Rightarrow> (direction \<times> probabilities \<times> real) option" where
  \<comment> \<open>\<^verbatim>\<open>(direction, combined_probs, confidence)\<close> as they stand before the
      \<^verbatim>\<open>return\<close> of \<^verbatim>\<open>HybridPredictor.predict\<close>\<close>
  "hybrid_decision transformer_pred lgbm_pred =
     (if direction transformer_pred = direction lgbm_pred
      then do {
        combined_probs \<leftarrow> weighted_average (probs transformer_pred) (probs lgbm_pred);
        let d = direction transformer_pred
        in Some (d, combined_probs,
                 max (confidence transformer_pred * transformer_weight
                        + confidence lgbm_pred * lgbm_weight)
                     (prob_of combined_probs d * 100))
      }
      else
        let transformer_conf = confidence transformer_pred;
            lgbm_conf = confidence lgbm_pred
        in if transformer_conf > 70 \<and> transformer_conf > lgbm_conf + 20
           then Some (direction transformer_pred, probs transformer_pred, transformer_conf * 0.7)
           else if lgbm_conf > 70 \<and> lgbm_conf > transformer_conf + 20
           then Some (direction lgbm_pred, probs lgbm_pred, lgbm_conf * 0.7)
           else Some (neutral, \<lparr>bullish_p = 0.33, bearish_p = 0.33, neutral_p = 0.34\<rparr>, 40))"

definition hybrid_fuse :: "prediction \<Rightarrow> prediction \<Rightarrow> hybrid_prediction option" where
  \<comment> \<open>\<^verbatim>\<open>HybridPredictor.predict\<close> from the two scorer outputs on\<close>
  "hybrid_fuse transformer_pred lgbm_pred = do {
     dpc \<leftarrow> hybrid_decision transformer_pred lgbm_pred;
     let d = fst dpc;
         combined_probs = fst (snd dpc);
         c = snd (snd dpc)
     in Some \<lparr>direction = d,
               confidence = py_round (min c 95) 1,
               probs = \<lparr>bullish_p = py_round (bullish_p combined_probs * 100) 1,
                         bearish_p = py_round (bearish_p combined_probs * 100) 1,
                         neutral_p = py_round (neutral_p combined_probs * 100) 1\<rparr>,
               model_agreement = (direction transformer_pred = direction lgbm_pred),
               transformer_signal = direction transformer_pred,
               lgbm_signal = direction lgbm_pred\<rparr>
   }"

definition hybrid_predict :: "candle list \<Rightarrow> indicators \<Rightarrow> hybrid_prediction option" where
  "hybrid_predict candles ind = do {
     transformer_pred \<leftarrow> patchtst_predict candles ind;
     lgbm_pred \<leftarrow> lgbm_predict candles ind;
     hybrid_fuse transformer_pred lgbm_pred
   }"

section \<open>api/routes/prediction.py\<close>

datatype risk_level = low | medium | high

definition assess_risk :: "hybrid_prediction \<Rightarrow> indicators \<Rightarrow> risk_level" where
  "assess_risk prediction technical =
     (if confidence prediction \<ge> 70 \<and> model_agreement prediction then low
      else if confidence prediction \<ge> 50 then medium
      else high)"

definition low_confidence_warning :: string where
  "low_confidence_warning = ''Low confidence prediction - consider waiting for clearer signals.''"

definition disagreement_warning :: string where
  "disagreement_warning = ''ML models show conflicting signals - increased uncertainty.''"

definition rsi_warning :: "string \<Rightarrow> string" where
  "rsi_warning condition = ''RSI indicates '' @ condition @ '' conditions - reversal possible.''"

definition volume_warning :: string where
  "volume_warning = ''Low volume may not support directional move.''"

definition generate_warnings :: "hybrid_prediction \<Rightarrow> indicators \<Rightarrow> string list" where
  "generate_warnings prediction technical =
     (let w1 = (if confidence prediction < 50 then [low_confidence_warning] else []);
          w2 = (if \<not> model_agreement prediction then w1 @ [disagreement_warning] else w1);
          w3 = (case rsi technical of
                  None \<Rightarrow> w2
                | Some r \<Rightarrow>
                    if truthy r \<and> (f64_gt r (Finite 70) \<or> f64_lt r (Finite 30))
                    then w2 @ [rsi_warning (if f64_gt r (Finite 70) then ''overbought''
                                            else ''oversold'')]
                    else w2);
          w4 = (if (case volume technical of None \<Rightarrow> False | Some v \<Rightarrow> trend v = decreasing)
                   \<and> direction prediction \<noteq> neutral
                then w3 @ [volume_warning] else w3)
      in w4)"

record insight =
  i_prediction :: hybrid_prediction
  i_technical :: indicators
  i_risk_level :: risk_level
  i_warnings :: "string list"

definition core_pipeline :: "candle list \<Rightarrow> insight option" where
  \<comment> \<open>the core calls of \<^verbatim>\<open>predict_next_candle\<close>, in its order: indicators, hybrid
      prediction, risk level, warnings\<close>
  "core_pipeline candles = do {
     tech_analysis \<leftarrow> calculate_all candles;
     prediction_result \<leftarrow> hybrid_predict candles tech_analysis;
     Some \<lparr>i_prediction = prediction_result, i_technical = tech_analysis,
           i_risk_level = assess_risk prediction_result tech_analysis,
           i_warnings = generate_warnings prediction_result tech_analysis\<rparr>
   }"

section \<open>Auxiliary predicates\<close>

definition grows_by :: "int \<Rightarrow> int \<times> int \<Rightarrow> int \<times> int \<Rightarrow> bool" where
  "grows_by k s t = (fst s \<le> fst t \<and> snd s \<le> snd t \<and> fst t + snd t \<le> fst s + snd s + k)"

definition valid_prediction :: "prediction \<Rightarrow> bool" where
  "valid_prediction p =
     (0 \<le> confidence p \<and> confidence p \<le> 100
      \<and> 0 \<le> bullish_p (probs p) \<and> 0 \<le> bearish_p (probs p) \<and> 0 \<le> neutral_p (probs p)
      \<and> bullish_p (probs p) + bearish_p (probs p) + neutral_p (probs p) = 1)"

definition weighted_class :: "(probabilities \<Rightarrow> real) \<Rightarrow> probabilities \<Rightarrow> probabilities \<Rightarrow> real" where
  \<comment> \<open>the weighted average of one class: scorer A with weight 0.6, scorer B with 0.4\<close>
  "weighted_class cls pa pb = 0.6 * cls pa + 0.4 * cls pb"

definition weighted_mass :: "probabilities \<Rightarrow> probabilities \<Rightarrow> real" where
  \<comment> \<open>the sum of the three weighted averages, by which they are renormalised\<close>
  "weighted_mass pa pb =
     weighted_class bullish_p pa pb + weighted_class bearish_p pa pb
       + weighted_class neutral_p pa pb"

definition percent :: "probabilities \<Rightarrow> probabilities" where
  \<comment> \<open>probabilities as percentages rounded to one decimal\<close>
  "percent p =
     \<lparr>bullish_p = py_round (bullish_p p * 100) 1,
      bearish_p = py_round (bearish_p p * 100) 1,
      neutral_p = py_round (neutral_p p * 100) 1\<rparr>"

definition diffs :: "real list \<Rightarrow> real list" where
  \<comment> \<open>the successive differences in exact arithmetic\<close>
  "diffs xs = map (\<lambda>(a, b). b - a) (zip xs (tl xs))"

definition spec_warnings :: "hybrid_prediction \<Rightarrow> indicators \<Rightarrow> string list" where
  \<comment> \<open>the warnings as the specification lists them: each notice if and only if its
      condition holds, in the order low confidence, disagreement, RSI, volume\<close>
  "spec_warnings prediction technical =
     (if confidence prediction < 50 then [low_confidence_warning] else [])
     @ (if \<not> model_agreement prediction then [disagreement_warning] else [])
     @ (case rsi technical of
          None \<Rightarrow> []
        | Some r \<Rightarrow>
            if f64_gt r (Finite 70) then [rsi_warning ''overbought'']
            else if f64_lt r (Finite 30) then [rsi_warning ''oversold'']
            else [])
     @ (if (case volume technical of None \<Rightarrow> False | Some v \<Rightarrow> trend v = decreasing)
           \<and> direction prediction \<noteq> neutral
        then [volume_warning] else [])"

section \<open>Rounding\<close>

lemma round_half_even_cases:
  fixes x :: real and f :: int
  assumes "f = \<lfloor>x\<rfloor>"
  shows "round_half_even x = f \<and> x - of_int f \<le> 1 / 2
       \<or> round_half_even x = f + 1 \<and> 1 / 2 \<le> x - of_int f"
  using assms unfolding round_half_even_def Let_def by auto


lemma round_half_even_mono_int:
  assumes "of_int a \<le> x" "x \<le> of_int b"
  shows "a \<le> round_half_even x \<and> round_half_even x \<le> b"
proof -
  define f where "f = \<lfloor>x\<rfloor>"
  have f1: "a \<le> f" using assms(1) by (simp add: le_floor_iff f_def)
  have f2: "f \<le> b" using assms(2) by (simp add: floor_le_iff f_def)
  have fl: "of_int f \<le> x" unfolding f_def by linarith
  have f3: "f < b" if "1 / 2 \<le> x - of_int f"
  proof -
    have "of_int f < (of_int b :: real)" using that assms(2) by linarith
    then show ?thesis by simp
  qed
  from round_half_even_cases [OF f_def] show ?thesis
    using f1 f2 f3 by (elim disjE conjE) simp_all
qed

lemma py_round_bounds:
  assumes "of_int a \<le> x" "x \<le> of_int b"
  shows "of_int a \<le> py_round x nd \<and> py_round x nd \<le> of_int b"
proof -
  have p: "(0::real) < 10 ^ nd" by simp
  have "of_int (a * 10 ^ nd) \<le> x * 10 ^ nd" "x * 10 ^ nd \<le> of_int (b * 10 ^ nd)"
    using assms p by simp_all
  then have "a * 10 ^ nd \<le> round_half_even (x * 10 ^ nd)"
    "round_half_even (x * 10 ^ nd) \<le> b * 10 ^ nd"
    using round_half_even_mono_int by blast+
  then have "of_int (a * 10 ^ nd) \<le> (of_int (round_half_even (x * 10 ^ nd)) :: real)"
    "(of_int (round_half_even (x * 10 ^ nd)) :: real) \<le> of_int (b * 10 ^ nd)"
    by (simp_all only: of_int_le_iff)
  then show ?thesis
    unfolding py_round_def using p by (simp add: field_simps)
qed



section \<open>RSI\<close>

lemma sum_list_nonneg_real: "(\<forall>x \<in> set xs. (0::real) \<le> x) \<Longrightarrow> 0 \<le> sum_list xs"
  by (induction xs) auto

lemma np_mean_nonneg:
  assumes "np_mean xs = Some m" "\<forall>x \<in> set xs. 0 \<le> x"
  shows "0 \<le> m"
  using assms sum_list_nonneg_real [of xs]
  by (auto simp: np_mean_def split: if_splits)


lemma length_np_diff: "length (np_diff xs) = length xs - 1"
  by (simp add: np_diff_def)

lemma length_last_n: "length (last_n n xs) = min n (length xs)"
  by (simp add: last_n_def)

section \<open>Indexing\<close>

lemma py_index_first: "xs \<noteq> [] \<Longrightarrow> py_index xs 0 = Some (xs ! 0)"
  by (simp add: py_index_def)

lemma py_index_from_end:
  "0 < k \<Longrightarrow> k \<le> length xs \<Longrightarrow> py_index xs (- int k) = Some (xs ! (length xs - k))"
  by (simp add: py_index_def Let_def nat_diff_distrib')

lemma py_index_last: "xs \<noteq> [] \<Longrightarrow> py_index xs (- 1) = Some (xs ! (length xs - 1))"
  using py_index_from_end [of 1 xs] by (simp add: Suc_leI)

section \<open>Pattern scorer\<close>

lemma patchtst_momentum_total: "\<exists>m. patchtst_momentum candles = Some m"
proof -
  define rc where "rc = map c_close (last_n 10 candles)"
  show ?thesis
  proof (cases "length rc \<ge> 2")
    case True
    then have ne: "rc \<noteq> []" by auto
    show ?thesis
      using True py_index_first [OF ne] py_index_last [OF ne]
      by (simp add: patchtst_momentum_def Let_def rc_def [symmetric] true_div_def)
  next
    case False
    then show ?thesis
      by (simp add: patchtst_momentum_def Let_def rc_def [symmetric])
  qed
qed

lemma momentum_contribution_grows: "grows_by 25 s (momentum_contribution m s)"
  by (simp add: grows_by_def momentum_contribution_def)

lemma rsi_contribution_grows: "grows_by 15 s (rsi_contribution r s)"
  by (simp add: grows_by_def rsi_contribution_def)

lemma macd_contribution_grows: "grows_by 10 s (macd_contribution h s)"
  by (simp add: grows_by_def macd_contribution_def)

lemma candle_contribution_grows:
  "0 \<le> a \<Longrightarrow> 0 \<le> b \<Longrightarrow> a + b \<le> 5 \<Longrightarrow> grows_by 40 s (candle_contribution a b s)"
  by (simp add: grows_by_def candle_contribution_def)

lemma grows_by_trans: "grows_by j s t \<Longrightarrow> grows_by k t u \<Longrightarrow> grows_by (j + k) s u"
  by (auto simp: grows_by_def)

lemma patchtst_scores_bounds:
  "\<exists>s. patchtst_scores candles ind = Some s \<and> 0 \<le> fst s \<and> 0 \<le> snd s \<and> fst s + snd s \<le> 90"
proof -
  obtain m where m: "patchtst_momentum candles = Some m"
    using patchtst_momentum_total by blast
  define lc where "lc = last_n 5 candles"
  define a where "a = int (length (filter (\<lambda>c. c_close c > c_open c) lc))"
  define b where "b = int (length lc) - a"
  define r where "r = (case rsi ind of None \<Rightarrow> Finite 50 | Some v \<Rightarrow> v)"
  define h where "h = (case macd ind of None \<Rightarrow> 0 | Some m \<Rightarrow> histogram m)"
  define s where "s = macd_contribution h (rsi_contribution r
      (candle_contribution a b (momentum_contribution m (0, 0))))"
  have eq: "patchtst_scores candles ind = Some s"
    by (simp add: patchtst_scores_def m Let_def s_def h_def r_def b_def a_def lc_def)
  have a0: "0 \<le> a" by (simp add: a_def)
  have b0: "0 \<le> b" unfolding a_def b_def by simp
  have "length lc \<le> 5" by (simp add: lc_def length_last_n)
  then have ab: "a + b \<le> 5" by (simp add: b_def)
  define s1 where "s1 = momentum_contribution m (0, 0)"
  define s2 where "s2 = candle_contribution a b s1"
  define s3 where "s3 = rsi_contribution r s2"
  have g1: "grows_by 25 (0, 0) s1"
    unfolding s1_def by (rule momentum_contribution_grows)
  have g2: "grows_by 40 s1 s2"
    unfolding s2_def using a0 b0 ab by (rule candle_contribution_grows)
  have g3: "grows_by 15 s2 s3"
    unfolding s3_def by (rule rsi_contribution_grows)
  have g4: "grows_by 10 s3 s"
    unfolding s_def s3_def s2_def s1_def by (rule macd_contribution_grows)
  from g1 g2 g3 g4 show ?thesis
    using eq by (simp add: grows_by_def)
qed

lemma complement_of_shares:
  fixes b r k t :: real
  assumes "t = b + r + k" "t \<noteq> 0"
  shows "1 - b / t - r / t = k / t"
proof -
  have "b / t + r / t + k / t = (b + r + k) / t"
    by (simp add: add_divide_distrib)
  also have "\<dots> = 1" using assms by simp
  finally show ?thesis by linarith
qed

lemma patchtst_raw_probs_char:
  assumes "patchtst_scores candles ind = Some s" "0 \<le> fst s" "0 \<le> snd s"
  shows "patchtst_raw_probs candles ind =
     Some (of_int (fst s) / (of_int (fst s) + of_int (snd s) + 20),
           of_int (snd s) / (of_int (fst s) + of_int (snd s) + 20),
           20 / (of_int (fst s) + of_int (snd s) + 20))"
proof -
  define a :: real where "a = of_int (fst s)"
  define b :: real where "b = of_int (snd s)"
  have ab: "0 \<le> a" "0 \<le> b" using assms(2,3) by (simp_all add: a_def b_def)
  have nz: "fst s + snd s + 20 \<noteq> 0" using assms(2,3) by linarith
  have key: "1 - a / (a + b + 20) - b / (a + b + 20) = 20 / (a + b + 20)"
    using ab by (intro complement_of_shares) simp_all
  show ?thesis
    using nz key assms(1)
    by (simp add: patchtst_raw_probs_def Let_def true_div_def a_def b_def)
qed

lemma neutral_share_above_floor:
  fixes a b k :: real
  assumes "0 \<le> a" "0 \<le> b" "0 < k" "a + b < 9 * k"
  shows "1 / 10 < k / (a + b + k)"
proof -
  have "0 < a + b + k" using assms by linarith
  then show ?thesis using assms by (simp add: field_simps)
qed

lemma patchtst_direction_confidence:
  assumes "0 \<le> b" "0 \<le> r" "0 \<le> n"
  shows "0 \<le> snd (patchtst_direction b r n)"
  using assms by (simp add: patchtst_direction_def)

lemma patchtst_predict_char:
  assumes "5 \<le> length candles" "patchtst_scores candles ind = Some s"
    "0 \<le> fst s" "0 \<le> snd s" "fst s + snd s \<le> 90"
  defines "t \<equiv> of_int (fst s) + of_int (snd s) + (20::real)"
  shows "patchtst_predict candles ind =
     Some \<lparr>direction = fst (patchtst_direction (of_int (fst s) / t) (of_int (snd s) / t) (20 / t)),
           confidence = min (snd (patchtst_direction (of_int (fst s) / t) (of_int (snd s) / t) (20 / t))) 90,
           probs = \<lparr>bullish_p = of_int (fst s) / t, bearish_p = of_int (snd s) / t,
                     neutral_p = 20 / t\<rparr>\<rparr>"
proof -
  have "1 / 10 < 20 / t"
    unfolding t_def using assms(3,4,5)
    by (intro neutral_share_above_floor) simp_all
  then have m: "max (20 / t) 0.1 = 20 / t" by simp
  show ?thesis
    using assms(1) m patchtst_raw_probs_char [OF assms(2,3,4)]
    by (simp add: patchtst_predict_def analyze_patterns_def Let_def t_def)
qed

lemma patchtst_predict_short:
  "length candles < 5 \<Longrightarrow> patchtst_predict candles ind = Some patchtst_neutral_prediction"
  by (simp add: patchtst_predict_def analyze_patterns_def)

lemma shares_sum_one:
  fixes a b k :: real
  assumes "a + b + k \<noteq> 0"
  shows "a / (a + b + k) + b / (a + b + k) + k / (a + b + k) = 1"
  using complement_of_shares [of "a + b + k" a b k] assms by linarith

lemma patchtst_predict_valid:
  "\<exists>p. patchtst_predict candles ind = Some p \<and> valid_prediction p"
proof (cases "length candles < 5")
  case True
  then show ?thesis
    by (simp add: patchtst_predict_short valid_prediction_def patchtst_neutral_prediction_def)
next
  case False
  obtain s where s: "patchtst_scores candles ind = Some s" "0 \<le> fst s" "0 \<le> snd s"
    "fst s + snd s \<le> 90"
    using patchtst_scores_bounds by blast
  define t :: real where "t = of_int (fst s) + of_int (snd s) + 20"
  have tpos: "0 < t" using s(2,3) by (simp add: t_def)
  have nn: "0 \<le> of_int (fst s) / t" "0 \<le> of_int (snd s) / t" "0 \<le> 20 / t"
    using tpos s(2,3) by simp_all
  have sum1: "of_int (fst s) / t + of_int (snd s) / t + 20 / t = 1"
    unfolding t_def using tpos by (intro shares_sum_one) (simp add: t_def)
  have c0: "0 \<le> snd (patchtst_direction (of_int (fst s) / t) (of_int (snd s) / t) (20 / t))"
    using nn by (rule patchtst_direction_confidence)
  show ?thesis
    using False nn sum1 c0 patchtst_predict_char [OF _ s]
    by (simp add: valid_prediction_def t_def)
qed

section \<open>Rule scorer\<close>

lemma py_index_fifth_from_end:
  "5 \<le> length xs \<Longrightarrow> py_index xs (- 5) = Some (xs ! (length xs - 5))"
  using py_index_from_end [of 5 xs] by simp

lemma lgbm_extract_features_total:
  assumes "candles \<noteq> []"
  shows "\<exists>f. lgbm_extract_features candles ind = Some f"
proof -
  define prev where "prev = (if length candles \<ge> 10 then last_n 10 candles else candles)"
  have pne: "prev \<noteq> []"
    using assms by (auto simp: prev_def last_n_def)
  then have cne: "map c_close prev \<noteq> []" by simp
  have i1: "py_index candles (- 1) = Some (candles ! (length candles - 1))"
    using assms by (rule py_index_last)
  have i2: "py_index (map c_close prev) 0 = Some (map c_close prev ! 0)"
    using cne by (rule py_index_first)
  have i3: "py_index (map c_close prev) (- 1) = Some (map c_close prev ! (length prev - 1))"
    using py_index_last [OF cne] by simp
  have i4: "5 \<le> length prev \<Longrightarrow>
      py_index (map c_close prev) (- 5) = Some (map c_close prev ! (length prev - 5))"
    using py_index_fifth_from_end [of "map c_close prev"] by simp
  have "lgbm_extract_features candles ind \<noteq> None"
    using pne
    by (simp add: lgbm_extract_features_def Let_def prev_def [symmetric]
        true_div_def np_mean_def bind_eq_None_conv i1 i2 i3 i4)
  then show ?thesis by blast
qed

lemma rsi_signals_grows: "grows_by 2 s (rsi_signals r s)"
  by (simp add: grows_by_def rsi_signals_def)

lemma macd_signals_grows: "grows_by 1 s (macd_signals h s)"
  by (simp add: grows_by_def macd_signals_def)

lemma trend_signals_grows: "grows_by 2 s (trend_signals e s)"
  by (simp add: grows_by_def trend_signals_def)

lemma volume_signals_grows: "grows_by 1 s (volume_signals v m s)"
  by (simp add: grows_by_def volume_signals_def)

lemma momentum_5_signals_grows: "grows_by 2 s (momentum_5_signals m s)"
  by (simp add: grows_by_def momentum_5_signals_def)

lemma momentum_10_signals_grows: "grows_by 1 s (momentum_10_signals m s)"
  by (simp add: grows_by_def momentum_10_signals_def)

lemma lgbm_signals_bounds:
  "0 \<le> fst (lgbm_signals f) \<and> 0 \<le> snd (lgbm_signals f)
   \<and> fst (lgbm_signals f) + snd (lgbm_signals f) \<le> 9"
proof -
  define s1 where "s1 = rsi_signals (f_rsi f) (0, 0)"
  define s2 where "s2 = macd_signals (f_macd_hist f) s1"
  define s3 where "s3 = trend_signals (f_ema_trend f) s2"
  define s4 where "s4 = volume_signals (f_volume_ratio f) (f_momentum_5 f) s3"
  define s5 where "s5 = momentum_5_signals (f_momentum_5 f) s4"
  have eq: "lgbm_signals f = momentum_10_signals (f_momentum_10 f) s5"
    by (simp add: lgbm_signals_def s5_def s4_def s3_def s2_def s1_def)
  have g1: "grows_by 2 (0, 0) s1" unfolding s1_def by (rule rsi_signals_grows)
  have g2: "grows_by 1 s1 s2" unfolding s2_def by (rule macd_signals_grows)
  have g3: "grows_by 2 s2 s3" unfolding s3_def by (rule trend_signals_grows)
  have g4: "grows_by 1 s3 s4" unfolding s4_def by (rule volume_signals_grows)
  have g5: "grows_by 2 s4 s5" unfolding s5_def by (rule momentum_5_signals_grows)
  have g6: "grows_by 1 s5 (lgbm_signals f)"
    unfolding eq by (rule momentum_10_signals_grows)
  from g1 g2 g3 g4 g5 g6 show ?thesis
    by (simp add: grows_by_def)
qed

lemma lgbm_raw_probs_char:
  "lgbm_raw_probs f =
     Some (of_int (fst (lgbm_signals f)) / (of_int (fst (lgbm_signals f)) + of_int (snd (lgbm_signals f)) + 3),
           of_int (snd (lgbm_signals f)) / (of_int (fst (lgbm_signals f)) + of_int (snd (lgbm_signals f)) + 3),
           3 / (of_int (fst (lgbm_signals f)) + of_int (snd (lgbm_signals f)) + 3))"
proof -
  define s where "s = lgbm_signals f"
  define a :: real where "a = of_int (fst s)"
  define b :: real where "b = of_int (snd s)"
  have s0: "0 \<le> fst s" "0 \<le> snd s" using lgbm_signals_bounds [of f] by (simp_all add: s_def)
  have ab: "0 \<le> a" "0 \<le> b" using s0 by (simp_all add: a_def b_def)
  have nz: "fst s + snd s + 3 \<noteq> 0" using s0 by linarith
  have key: "1 - a / (a + b + 3) - b / (a + b + 3) = 3 / (a + b + 3)"
    using ab by (intro complement_of_shares) simp_all
  show ?thesis
    using nz key
    by (simp add: lgbm_raw_probs_def Let_def true_div_def a_def b_def s_def)
qed

lemma lgbm_direction_confidence:
  assumes "0 \<le> b" "0 \<le> r"
  shows "0 \<le> snd (lgbm_direction b r s) \<and> snd (lgbm_direction b r s) \<le> 85"
  using assms by (simp add: lgbm_direction_def)

lemma rule_based_prediction_char:
  defines "t f \<equiv> of_int (fst (lgbm_signals f)) + of_int (snd (lgbm_signals f)) + (3::real)"
  shows "rule_based_prediction f candles ind =
     Some \<lparr>direction = fst (lgbm_direction (of_int (fst (lgbm_signals f)) / t f)
                              (of_int (snd (lgbm_signals f)) / t f) (lgbm_signals f)),
           confidence = snd (lgbm_direction (of_int (fst (lgbm_signals f)) / t f)
                              (of_int (snd (lgbm_signals f)) / t f) (lgbm_signals f)),
           probs = \<lparr>bullish_p = of_int (fst (lgbm_signals f)) / t f,
                     bearish_p = of_int (snd (lgbm_signals f)) / t f,
                     neutral_p = 3 / t f\<rparr>\<rparr>"
proof -
  have b: "0 \<le> fst (lgbm_signals f)" "0 \<le> snd (lgbm_signals f)"
    "fst (lgbm_signals f) + snd (lgbm_signals f) \<le> 9"
    using lgbm_signals_bounds [of f] by simp_all
  have "1 / 10 < 3 / t f"
    unfolding t_def using b by (intro neutral_share_above_floor) simp_all
  then have m: "max (3 / t f) 0.1 = 3 / t f" by simp
  show ?thesis
    using m by (simp add: rule_based_prediction_def lgbm_raw_probs_char Let_def t_def)
qed

lemma lgbm_predict_short:
  "length candles < 5 \<Longrightarrow> lgbm_predict candles ind = Some lgbm_neutral_prediction"
  by (simp add: lgbm_predict_def)

lemma rule_based_prediction_valid:
  "\<exists>p. rule_based_prediction f candles ind = Some p \<and> valid_prediction p"
proof -
  define a :: real where "a = of_int (fst (lgbm_signals f))"
  define b :: real where "b = of_int (snd (lgbm_signals f))"
  have ab: "0 \<le> a" "0 \<le> b"
    using lgbm_signals_bounds [of f] by (simp_all add: a_def b_def)
  then have tpos: "0 < a + b + 3" by linarith
  have nn: "0 \<le> a / (a + b + 3)" "0 \<le> b / (a + b + 3)" "0 \<le> 3 / (a + b + 3)"
    using tpos ab by simp_all
  have sum1: "a / (a + b + 3) + b / (a + b + 3) + 3 / (a + b + 3) = 1"
    using tpos by (intro shares_sum_one) simp
  have c: "0 \<le> snd (lgbm_direction (a / (a + b + 3)) (b / (a + b + 3)) (lgbm_signals f))"
    "snd (lgbm_direction (a / (a + b + 3)) (b / (a + b + 3)) (lgbm_signals f)) \<le> 85"
    using lgbm_direction_confidence [OF nn(1,2)] by simp_all
  show ?thesis
    using nn sum1 c
    by (simp add: rule_based_prediction_char valid_prediction_def a_def b_def)
qed

lemma lgbm_predict_valid:
  "\<exists>p. lgbm_predict candles ind = Some p \<and> valid_prediction p"
proof (cases "length candles < 5")
  case True
  then show ?thesis
    by (simp add: lgbm_predict_short valid_prediction_def lgbm_neutral_prediction_def)
next
  case False
  then have "candles \<noteq> []" by auto
  then obtain f where f: "lgbm_extract_features candles ind = Some f"
    using lgbm_extract_features_total by blast
  show ?thesis
    using False f rule_based_prediction_valid [of f candles ind]
    by (simp add: lgbm_predict_def)
qed

lemma patchtst_floor_inactive:
  assumes "5 \<le> length candles"
  shows "\<exists>s p out. patchtst_scores candles ind = Some s
      \<and> fst s + snd s \<le> 90
      \<and> patchtst_raw_probs candles ind = Some p
      \<and> snd (snd p) = 20 / of_int (fst s + snd s + 20)
      \<and> 1 / 10 < snd (snd p)
      \<and> max (snd (snd p)) (1 / 10) = snd (snd p)
      \<and> patchtst_predict candles ind = Some out
      \<and> bullish_p (probs out) = fst p \<and> bearish_p (probs out) = fst (snd p)
      \<and> neutral_p (probs out) = snd (snd p)
      \<and> bullish_p (probs out) + bearish_p (probs out) + neutral_p (probs out) = 1"
proof -
  obtain s where s: "patchtst_scores candles ind = Some s" "0 \<le> fst s" "0 \<le> snd s"
    "fst s + snd s \<le> 90"
    using patchtst_scores_bounds by blast
  define t :: real where "t = of_int (fst s) + of_int (snd s) + 20"
  have tpos: "0 < t" using s(2,3) by (simp add: t_def)
  have fl: "1 / 10 < 20 / t"
    unfolding t_def using s(2,3,4) by (intro neutral_share_above_floor) simp_all
  have sum1: "of_int (fst s) / t + of_int (snd s) / t + 20 / t = 1"
    unfolding t_def using tpos by (intro shares_sum_one) (simp add: t_def)
  have raw: "patchtst_raw_probs candles ind = Some (of_int (fst s) / t, of_int (snd s) / t, 20 / t)"
    unfolding t_def using s(1,2,3) by (rule patchtst_raw_probs_char)
  have out: "patchtst_predict candles ind =
     Some \<lparr>direction = fst (patchtst_direction (of_int (fst s) / t) (of_int (snd s) / t) (20 / t)),
           confidence = min (snd (patchtst_direction (of_int (fst s) / t) (of_int (snd s) / t) (20 / t))) 90,
           probs = \<lparr>bullish_p = of_int (fst s) / t, bearish_p = of_int (snd s) / t,
                     neutral_p = 20 / t\<rparr>\<rparr>"
    unfolding t_def using assms s by (rule patchtst_predict_char)
  show ?thesis
  proof (intro exI conjI)
    show "patchtst_scores candles ind = Some s" by (rule s(1))
    show "fst s + snd s \<le> 90" by (rule s(4))
    show "patchtst_raw_probs candles ind = Some (of_int (fst s) / t, of_int (snd s) / t, 20 / t)"
      by (rule raw)
    show "snd (snd (of_int (fst s) / t, of_int (snd s) / t, 20 / t))
        = 20 / of_int (fst s + snd s + 20)"
      by (simp add: t_def)
    show "1 / 10 < snd (snd (of_int (fst s) / t, of_int (snd s) / t, 20 / t))"
      using fl by simp
    then show "max (snd (snd (of_int (fst s) / t, of_int (snd s) / t, 20 / t))) (1 / 10)
        = snd (snd (of_int (fst s) / t, of_int (snd s) / t, 20 / t))"
      by linarith
    show "patchtst_predict candles ind =
     Some \<lparr>direction = fst (patchtst_direction (of_int (fst s) / t) (of_int (snd s) / t) (20 / t)),
           confidence = min (snd (patchtst_direction (of_int (fst s) / t) (of_int (snd s) / t) (20 / t))) 90,
           probs = \<lparr>bullish_p = of_int (fst s) / t, bearish_p = of_int (snd s) / t,
                     neutral_p = 20 / t\<rparr>\<rparr>"
      by (rule out)
  qed (use sum1 in simp_all)
qed

lemma lgbm_floor_inactive:
  assumes "5 \<le> length candles"
  shows "\<exists>f p out. lgbm_extract_features candles ind = Some f
      \<and> fst (lgbm_signals f) + snd (lgbm_signals f) \<le> 9
      \<and> lgbm_raw_probs f = Some p
      \<and> snd (snd p) = 3 / of_int (fst (lgbm_signals f) + snd (lgbm_signals f) + 3)
      \<and> 1 / 10 < snd (snd p)
      \<and> max (snd (snd p)) (1 / 10) = snd (snd p)
      \<and> lgbm_predict candles ind = Some out
      \<and> bullish_p (probs out) = fst p \<and> bearish_p (probs out) = fst (snd p)
      \<and> neutral_p (probs out) = snd (snd p)
      \<and> bullish_p (probs out) + bearish_p (probs out) + neutral_p (probs out) = 1"
proof -
  from assms have "candles \<noteq> []" by auto
  then obtain f where f: "lgbm_extract_features candles ind = Some f"
    using lgbm_extract_features_total by blast
  define a :: real where "a = of_int (fst (lgbm_signals f))"
  define b :: real where "b = of_int (snd (lgbm_signals f))"
  have bd: "0 \<le> fst (lgbm_signals f)" "0 \<le> snd (lgbm_signals f)"
    "fst (lgbm_signals f) + snd (lgbm_signals f) \<le> 9"
    using lgbm_signals_bounds [of f] by simp_all
  have ab: "0 \<le> a" "0 \<le> b" "a + b \<le> 9"
    using bd unfolding a_def b_def by linarith+
  have tpos: "0 < a + b + 3" using ab by linarith
  have fl: "1 / 10 < 3 / (a + b + 3)"
    using ab by (intro neutral_share_above_floor) simp_all
  have sum1: "a / (a + b + 3) + b / (a + b + 3) + 3 / (a + b + 3) = 1"
    using tpos by (intro shares_sum_one) simp
  have raw: "lgbm_raw_probs f = Some (a / (a + b + 3), b / (a + b + 3), 3 / (a + b + 3))"
    unfolding a_def b_def by (rule lgbm_raw_probs_char)
  have out: "lgbm_predict candles ind =
     Some \<lparr>direction = fst (lgbm_direction (a / (a + b + 3)) (b / (a + b + 3)) (lgbm_signals f)),
           confidence = snd (lgbm_direction (a / (a + b + 3)) (b / (a + b + 3)) (lgbm_signals f)),
           probs = \<lparr>bullish_p = a / (a + b + 3), bearish_p = b / (a + b + 3),
                     neutral_p = 3 / (a + b + 3)\<rparr>\<rparr>"
    using assms f by (simp add: lgbm_predict_def rule_based_prediction_char a_def b_def)
  show ?thesis
  proof (intro exI conjI)
    show "lgbm_extract_features candles ind = Some f" by (rule f)
    show "fst (lgbm_signals f) + snd (lgbm_signals f) \<le> 9" by (rule bd(3))
    show "lgbm_raw_probs f = Some (a / (a + b + 3), b / (a + b + 3), 3 / (a + b + 3))"
      by (rule raw)
    show "snd (snd (a / (a + b + 3), b / (a + b + 3), 3 / (a + b + 3)))
        = 3 / of_int (fst (lgbm_signals f) + snd (lgbm_signals f) + 3)"
      by (simp add: a_def b_def)
    show "1 / 10 < snd (snd (a / (a + b + 3), b / (a + b + 3), 3 / (a + b + 3)))"
      using fl by simp
    then show "max (snd (snd (a / (a + b + 3), b / (a + b + 3), 3 / (a + b + 3)))) (1 / 10)
        = snd (snd (a / (a + b + 3), b / (a + b + 3), 3 / (a + b + 3)))"
      by linarith
    show "lgbm_predict candles ind =
     Some \<lparr>direction = fst (lgbm_direction (a / (a + b + 3)) (b / (a + b + 3)) (lgbm_signals f)),
           confidence = snd (lgbm_direction (a / (a + b + 3)) (b / (a + b + 3)) (lgbm_signals f)),
           probs = \<lparr>bullish_p = a / (a + b + 3), bearish_p = b / (a + b + 3),
                     neutral_p = 3 / (a + b + 3)\<rparr>\<rparr>"
      by (rule out)
  qed (use sum1 in simp_all)
qed

section \<open>Fusion\<close>

lemma weighted_average_char:
  assumes "weighted_mass p1 p2 \<noteq> 0"
  shows "weighted_average p1 p2 =
     Some \<lparr>bullish_p = weighted_class bullish_p p1 p2 / weighted_mass p1 p2,
           bearish_p = weighted_class bearish_p p1 p2 / weighted_mass p1 p2,
           neutral_p = weighted_class neutral_p p1 p2 / weighted_mass p1 p2\<rparr>"
proof -
  have c: "cls p1 * transformer_weight + cls p2 * lgbm_weight = weighted_class cls p1 p2" for cls
    by (simp add: weighted_class_def transformer_weight_def lgbm_weight_def)
  have m: "weighted_class bullish_p p1 p2 + weighted_class bearish_p p1 p2
      + weighted_class neutral_p p1 p2 = weighted_mass p1 p2"
    by (simp add: weighted_mass_def)
  show ?thesis
    unfolding weighted_average_def Let_def c m using assms by (simp add: true_div_def)
qed

lemma weighted_average_sum:
  assumes "weighted_mass p1 p2 \<noteq> 0"
  shows "weighted_class bullish_p p1 p2 / weighted_mass p1 p2
     + weighted_class bearish_p p1 p2 / weighted_mass p1 p2
     + weighted_class neutral_p p1 p2 / weighted_mass p1 p2 = 1"
proof -
  have "weighted_mass p1 p2 = weighted_class bullish_p p1 p2 + weighted_class bearish_p p1 p2
      + weighted_class neutral_p p1 p2"
    by (simp add: weighted_mass_def)
  from complement_of_shares [OF this assms] show ?thesis by linarith
qed

lemma weighted_mass_valid:
  assumes "valid_prediction a" "valid_prediction b"
  shows "weighted_mass (probs a) (probs b) = 1"
  using assms by (simp add: weighted_mass_def weighted_class_def valid_prediction_def)

lemma hybrid_fuse_char:
  assumes "hybrid_decision a b = Some (d, pr, c)"
  shows "hybrid_fuse a b =
     Some \<lparr>direction = d, confidence = py_round (min c 95) 1, probs = percent pr,
           model_agreement = (direction a = direction b),
           transformer_signal = direction a, lgbm_signal = direction b\<rparr>"
  using assms by (simp add: hybrid_fuse_def Let_def percent_def)

lemma hybrid_decision_agree:
  assumes "direction a = direction b" "weighted_mass (probs a) (probs b) \<noteq> 0"
  shows "hybrid_decision a b =
     Some (direction a,
           \<lparr>bullish_p = weighted_class bullish_p (probs a) (probs b) / weighted_mass (probs a) (probs b),
            bearish_p = weighted_class bearish_p (probs a) (probs b) / weighted_mass (probs a) (probs b),
            neutral_p = weighted_class neutral_p (probs a) (probs b) / weighted_mass (probs a) (probs b)\<rparr>,
           max (0.6 * confidence a + 0.4 * confidence b)
               (prob_of \<lparr>bullish_p = weighted_class bullish_p (probs a) (probs b) / weighted_mass (probs a) (probs b),
            bearish_p = weighted_class bearish_p (probs a) (probs b) / weighted_mass (probs a) (probs b),
            neutral_p = weighted_class neutral_p (probs a) (probs b) / weighted_mass (probs a) (probs b)\<rparr> (direction a) * 100))"
  using assms
  by (simp add: hybrid_decision_def weighted_average_char Let_def transformer_weight_def
      lgbm_weight_def)

lemma hybrid_decision_disagree:
  assumes "direction a \<noteq> direction b"
  shows "hybrid_decision a b =
     (if 70 < confidence a \<and> confidence b + 20 < confidence a
      then Some (direction a, probs a, confidence a * 0.7)
      else if 70 < confidence b \<and> confidence a + 20 < confidence b
      then Some (direction b, probs b, confidence b * 0.7)
      else Some (neutral, \<lparr>bullish_p = 0.33, bearish_p = 0.33, neutral_p = 0.34\<rparr>, 40))"
  using assms by (simp add: hybrid_decision_def Let_def)





lemma scorer_outputs_weighted_mass:
  assumes "patchtst_predict candles ind = Some a" "lgbm_predict candles ind = Some b"
  shows "weighted_mass (probs a) (probs b) = 1"
proof -
  have "valid_prediction a" using patchtst_predict_valid [of candles ind] assms(1) by auto
  moreover have "valid_prediction b" using lgbm_predict_valid [of candles ind] assms(2) by auto
  ultimately show ?thesis by (rule weighted_mass_valid)
qed

section \<open>RSI on float64 values\<close>

lemma threshold_large: "3 * 10 ^ 307 < overflow_threshold"
  by (simp add: overflow_threshold_def)

lemma threshold_small: "10000 < overflow_threshold"
  using threshold_large by simp

lemma to_float64_finite:
  "- overflow_threshold < x \<Longrightarrow> x < overflow_threshold \<Longrightarrow> to_float64 x = Finite x"
  by (simp add: to_float64_def)

lemma to_float64_nonneg:
  "0 \<le> x \<Longrightarrow> to_float64 x = Finite x \<or> to_float64 x = PosInf"
  using threshold_small by (auto simp: to_float64_def)

lemma np_diff_finite:
  assumes "\<forall>x \<in> set xs. \<bar>x\<bar> \<le> B" "2 * B < overflow_threshold"
  shows "np_diff (map Finite xs) = map Finite (diffs xs)"
proof -
  have "f64_sub (Finite b) (Finite a) = Finite (b - a)"
    if "(a, b) \<in> set (zip xs (tl xs))" for a b
  proof -
    have "a \<in> set xs" using that by (rule set_zip_leftD)
    moreover have "b \<in> set xs"
      using set_zip_rightD [OF that] by (cases xs) auto
    ultimately have "\<bar>a\<bar> \<le> B" "\<bar>b\<bar> \<le> B" using assms(1) by auto
    then have "- overflow_threshold < b - a" "b - a < overflow_threshold"
      using assms(2) by linarith+
    then show ?thesis by (simp add: f64_sub_def to_float64_finite)
  qed
  then have "map (\<lambda>(a, b). f64_sub (Finite b) (Finite a)) (zip xs (tl xs))
      = map (\<lambda>(a, b). Finite (b - a)) (zip xs (tl xs))"
    by (intro map_cong) auto
  moreover have "np_diff (map Finite xs)
      = map (\<lambda>(a, b). f64_sub (Finite b) (Finite a)) (zip xs (tl xs))"
    by (simp add: np_diff_def map_tl [symmetric] zip_map_map case_prod_unfold comp_def)
  moreover have "map Finite (diffs xs) = map (\<lambda>(a, b). Finite (b - a)) (zip xs (tl xs))"
    by (simp add: diffs_def case_prod_unfold comp_def)
  ultimately show ?thesis by simp
qed

lemma diffs_bounded:
  assumes "\<forall>x \<in> set xs. \<bar>x\<bar> \<le> B"
  shows "\<forall>d \<in> set (diffs xs). \<bar>d\<bar> \<le> 2 * B"
proof
  fix d assume "d \<in> set (diffs xs)"
  then obtain a b where ab: "(a, b) \<in> set (zip xs (tl xs))" "d = b - a"
    by (auto simp: diffs_def)
  have "a \<in> set xs" using ab(1) by (rule set_zip_leftD)
  moreover have "b \<in> set xs" using set_zip_rightD [OF ab(1)] by (cases xs) auto
  ultimately have "\<bar>a\<bar> \<le> B" "\<bar>b\<bar> \<le> B" using assms by auto
  then show "\<bar>d\<bar> \<le> 2 * B" using ab(2) by linarith
qed

lemma length_diffs: "length (diffs xs) = length xs - 1"
  by (simp add: diffs_def)

lemma fold_add_finite:
  assumes "\<forall>x \<in> set xs. 0 \<le> x" "0 \<le> a" "a + sum_list xs < overflow_threshold"
  shows "fold (\<lambda>x acc. f64_add acc x) (map Finite xs) (Finite a) = Finite (a + sum_list xs)"
  using assms
proof (induction xs arbitrary: a)
  case Nil
  then show ?case by simp
next
  case (Cons x xs)
  have x0: "0 \<le> x" and rest: "\<forall>y \<in> set xs. 0 \<le> y" using Cons.prems(1) by simp_all
  have s0: "0 \<le> sum_list xs" using rest by (rule sum_list_nonneg_real)
  have lt: "a + x < overflow_threshold" using Cons.prems(3) s0 by simp
  have step: "to_float64 (a + x) = Finite (a + x)"
    using lt x0 Cons.prems(2) threshold_small by (intro to_float64_finite) linarith+
  have "fold (\<lambda>x acc. f64_add acc x) (map Finite xs) (Finite (a + x))
      = Finite (a + x + sum_list xs)"
    using rest x0 Cons.prems(2,3) by (intro Cons.IH) simp_all
  then show ?case by (simp add: step add.assoc)
qed

lemma np_mean64_finite:
  assumes "\<forall>x \<in> set xs. 0 \<le> x" "sum_list xs < overflow_threshold" "xs \<noteq> []"
  shows "np_mean64 (map Finite xs) = Finite (sum_list xs / real (length xs))"
proof -
  have s: "np_sum64 (map Finite xs) = Finite (sum_list xs)"
    using fold_add_finite [of xs 0] assms(1,2) by (simp add: np_sum64_def)
  have s0: "0 \<le> sum_list xs" using assms(1) by (rule sum_list_nonneg_real)
  have n: "1 \<le> real (length xs)" using assms(3) by (cases xs) simp_all
  have "sum_list xs / real (length xs) \<le> sum_list xs / 1"
    by (rule divide_left_mono) (use s0 n assms(3) in simp_all)
  then have "sum_list xs / real (length xs) < overflow_threshold"
    using assms(2) by linarith
  moreover have "0 \<le> sum_list xs / real (length xs)" using s0 by simp
  ultimately have "to_float64 (sum_list xs / real (length xs))
      = Finite (sum_list xs / real (length xs))"
    using threshold_small by (intro to_float64_finite) linarith+
  then show ?thesis
    using assms(3) by (simp add: np_mean64_def s)
qed

lemma sum_list_bounded:
  assumes "\<forall>x \<in> set xs. x \<le> (G::real)"
  shows "sum_list xs \<le> real (length xs) * G"
  using assms by (induction xs) (auto simp: algebra_simps)

lemma f64_round_finite:
  assumes "0 \<le> v" "v \<le> 100"
  shows "f64_round (Finite v) 2 = Finite (py_round v 2)"
proof -
  have "0 \<le> v * 10 ^ 2" "v * 10 ^ 2 < overflow_threshold"
    using assms threshold_small by simp_all
  then have "to_float64 (v * 10 ^ 2) = Finite (v * 10 ^ 2)"
    using threshold_small by (intro to_float64_finite) linarith+
  then show ?thesis by (simp add: f64_round_def py_round_def)
qed

lemma rsi_value_from_infinite_ratio:
  "f64_round (f64_sub (Finite 100) (f64_div (Finite 100) (f64_add (Finite 1) PosInf))) 2
     = Finite 100"
proof -
  have "to_float64 100 = Finite 100"
    using threshold_small by (intro to_float64_finite) linarith+
  then have "f64_sub (Finite 100) (f64_div (Finite 100) (f64_add (Finite 1) PosInf))
      = Finite 100"
    by (simp add: f64_sub_def)
  moreover have "f64_round (Finite 100) 2 = Finite (py_round 100 2)"
    by (rule f64_round_finite) simp_all
  moreover have "py_round 100 2 = 100"
    by (simp add: py_round_def round_half_even_def)
  ultimately show ?thesis by simp
qed

lemma rsi_value_range:
  assumes "0 \<le> g" "0 < l"
  shows "\<exists>r. f64_round (f64_sub (Finite 100)
            (f64_div (Finite 100) (f64_add (Finite 1) (f64_div (Finite g) (Finite l))))) 2
          = Finite r \<and> 0 \<le> r \<and> r \<le> 100"
proof -
  define q where "q = g / l"
  have q0: "0 \<le> q" using assms by (simp add: q_def)
  have d: "f64_div (Finite g) (Finite l) = to_float64 q"
    using assms(2) by (simp add: q_def)
  consider (inf) "to_float64 q = PosInf" | (fin) "to_float64 q = Finite q"
    using to_float64_nonneg [OF q0] by blast
  then show ?thesis
  proof cases
    case inf
    show ?thesis
      unfolding d inf rsi_value_from_infinite_ratio by simp
  next
    case fin
    have q1: "0 \<le> 1 + q" using q0 by simp
    consider (inf1) "to_float64 (1 + q) = PosInf" | (fin1) "to_float64 (1 + q) = Finite (1 + q)"
      using to_float64_nonneg [OF q1] by blast
    then show ?thesis
    proof cases
      case inf1
      then have "f64_add (Finite 1) (Finite q) = f64_add (Finite 1) PosInf" by simp
      then show ?thesis
        unfolding d fin using rsi_value_from_infinite_ratio by simp
    next
      case fin1
      define v where "v = 100 - 100 / (1 + q)"
      have p: "0 < 100 / (1 + q)" "100 / (1 + q) \<le> 100"
        using q0 by (simp_all add: field_simps)
      then have v: "0 \<le> v" "v \<le> 100" by (simp_all add: v_def)
      have t1: "to_float64 (100 / (1 + q)) = Finite (100 / (1 + q))"
        using p threshold_small by (intro to_float64_finite) linarith+
      have t2: "to_float64 v = Finite v"
        using v threshold_small by (intro to_float64_finite) linarith+
      have nz: "1 + q \<noteq> 0" using q0 by linarith
      have "f64_sub (Finite 100) (f64_div (Finite 100) (f64_add (Finite 1) (Finite q)))
          = Finite v"
        using nz t2 by (simp add: f64_sub_def fin1 t1 v_def)
      moreover have "f64_round (Finite v) 2 = Finite (py_round v 2)"
        using v by (rule f64_round_finite)
      moreover have "of_int 0 \<le> py_round v 2 \<and> py_round v 2 \<le> of_int 100"
        by (rule py_round_bounds) (use v in simp_all)
      ultimately show ?thesis
        unfolding d fin by simp
    qed
  qed
qed

lemma calculate_rsi_bounded_by:
  assumes "\<forall>c \<in> set closes. \<bar>c\<bar> \<le> B" "28 * B < overflow_threshold"
  shows "\<exists>r. calculate_rsi closes 14 = Finite r \<and> 0 \<le> r \<and> r \<le> 100"
proof (cases "length closes < 15")
  case True
  then show ?thesis by (simp add: calculate_rsi_def)
next
  case False
  define xs where "xs = last_n 15 closes"
  define ds where "ds = diffs xs"
  define gs where "gs = map (\<lambda>d. if 0 < d then d else 0) ds"
  define ls where "ls = map (\<lambda>d. if d < 0 then - d else 0) ds"
  have "set xs \<subseteq> set closes"
    unfolding xs_def last_n_def by (rule set_drop_subset)
  then have bx: "\<forall>x \<in> set xs. \<bar>x\<bar> \<le> B" using assms(1) by auto
  have "xs \<noteq> []" using False by (auto simp: xs_def last_n_def)
  then obtain x where "x \<in> set xs" by (cases xs) auto
  with bx have B0: "0 \<le> B" by fastforce
  have two: "2 * B < overflow_threshold" using assms(2) B0 by linarith
  have changes: "np_diff (map Finite xs) = map Finite ds"
    unfolding ds_def using bx two by (rule np_diff_finite)
  have bd: "\<forall>d \<in> set ds. \<bar>d\<bar> \<le> 2 * B"
    unfolding ds_def using bx by (rule diffs_bounded)
  have len: "length ds = 14"
    using False by (simp add: ds_def length_diffs xs_def length_last_n)
  have gains: "map (\<lambda>c. if f64_gt c (Finite 0) then c else Finite 0) (map Finite ds)
      = map Finite gs"
    by (simp add: gs_def f64_gt_def comp_def if_distrib [of Finite])
  have losses: "map (\<lambda>c. if f64_lt c (Finite 0) then f64_neg c else Finite 0) (map Finite ds)
      = map Finite ls"
    by (simp add: ls_def comp_def if_distrib [of Finite])
  have g0: "\<forall>g \<in> set gs. 0 \<le> g" and l0: "\<forall>l \<in> set ls. 0 \<le> l"
    by (auto simp: gs_def ls_def)
  have gb: "\<forall>g \<in> set gs. g \<le> 2 * B" and lb: "\<forall>l \<in> set ls. l \<le> 2 * B"
    using bd B0 by (auto simp: gs_def ls_def abs_le_iff)
  have "sum_list gs \<le> real (length gs) * (2 * B)"
    using gb by (rule sum_list_bounded)
  moreover have "length gs = 14" using len by (simp add: gs_def)
  ultimately have sg: "sum_list gs < overflow_threshold"
    using assms(2) by simp
  have "sum_list ls \<le> real (length ls) * (2 * B)"
    using lb by (rule sum_list_bounded)
  moreover have "length ls = 14" using len by (simp add: ls_def)
  ultimately have sl: "sum_list ls < overflow_threshold"
    using assms(2) by simp
  have ne: "gs \<noteq> []" "ls \<noteq> []" using len by (auto simp: gs_def ls_def)
  define g where "g = sum_list gs / real (length gs)"
  define l where "l = sum_list ls / real (length ls)"
  have mg: "np_mean64 (map Finite gs) = Finite g"
    unfolding g_def using g0 sg ne(1) by (rule np_mean64_finite)
  have ml: "np_mean64 (map Finite ls) = Finite l"
    unfolding l_def using l0 sl ne(2) by (rule np_mean64_finite)
  have gnn: "0 \<le> g" unfolding g_def using sum_list_nonneg_real [OF g0] by simp
  have lnn: "0 \<le> l" unfolding l_def using sum_list_nonneg_real [OF l0] by simp
  have "\<not> length closes < 14 + 1" using False by simp
  then have "calculate_rsi closes 14 =
      (let changes = np_diff (map Finite (last_n (14 + 1) closes));
            gains = map (\<lambda>c. if f64_gt c (Finite 0) then c else Finite 0) changes;
            losses = map (\<lambda>c. if f64_lt c (Finite 0) then f64_neg c else Finite 0) changes;
            avg_gain = np_mean64 gains;
            avg_loss = np_mean64 losses
        in if avg_loss = Finite 0 then Finite 100
           else
             let rs = f64_div avg_gain avg_loss;
                 r = f64_sub (Finite 100) (f64_div (Finite 100) (f64_add (Finite 1) rs))
             in f64_round r 2)"
    unfolding calculate_rsi_def by (rule if_not_P)
  moreover have "last_n (14 + 1) closes = xs" by (simp add: xs_def)
  ultimately have unf: "calculate_rsi closes 14 =
      (if Finite l = Finite 0 then Finite 100
       else f64_round (f64_sub (Finite 100)
              (f64_div (Finite 100) (f64_add (Finite 1) (f64_div (Finite g) (Finite l))))) 2)"
    unfolding Let_def by (simp only: changes gains losses mg ml)
  show ?thesis
  proof (cases "l = 0")
    case True
    then show ?thesis unfolding unf by simp
  next
    case False
    then have "0 < l" using lnn by simp
    from rsi_value_range [OF gnn this] show ?thesis
      unfolding unf using False by (simp only: float64.inject if_False)
  qed
qed

lemma calculate_rsi_bounded:
  assumes "\<forall>c \<in> set closes. \<bar>c\<bar> \<le> 10 ^ 306"
  shows "\<exists>r. calculate_rsi closes 14 = Finite r \<and> 0 \<le> r \<and> r \<le> 100"
  using assms
proof (rule calculate_rsi_bounded_by)
  show "28 * (10::real) ^ 306 < overflow_threshold"
    by (simp add: overflow_threshold_def)
qed

lemma calculate_rsi_overflow:
  "calculate_rsi [2 ^ 1023, 0, 2 ^ 1023, 0, 2 ^ 1023, 0, 2 ^ 1023, 0, 2 ^ 1023, 0, 2 ^ 1023, 0, 2 ^ 1023, 0, 2 ^ 1023, 0] 14 = NaN"
  by (simp add: calculate_rsi_def last_n_def np_diff_def np_mean64_def np_sum64_def
      f64_sub_def f64_gt_def to_float64_def overflow_threshold_def Let_def f64_round_def)

section \<open>Totality of the pipeline\<close>













section \<open>Warnings\<close>

lemma generate_warnings_char:
  "generate_warnings p t =
     (if rsi t = Some (Finite 0) then spec_warnings p (t\<lparr>rsi := None\<rparr>)
      else spec_warnings p t)"
proof (cases "rsi t")
  case None
  then show ?thesis
    by (simp add: generate_warnings_def spec_warnings_def Let_def)
next
  case (Some r)
  then show ?thesis
    by (cases "r = Finite 0")
       (auto simp: generate_warnings_def spec_warnings_def Let_def truthy_def f64_gt_def)
qed

lemma calculate_all_falling:
  "calculate_all (map (\<lambda>p. \<lparr>timestamp = 0, c_open = p + 1, c_high = p + 1, c_low = p, c_close = p, c_volume = 1000\<rparr>)
        [15, 14, 13, 12, 11, 10, 9, 8, 7, 6, 5, 4, 3, 2, 1]) =
     Some \<lparr>rsi = Some (Finite 0),
             macd = Some \<lparr>macd_line = 0, signal_line = 0, histogram = 0\<rparr>,
             ema = [(9, 5)], sma = [],
             volume = Some \<lparr>trend = stable, ratio = 1, recent_average = Some 1000,
                             overall_average = Some 1000\<rparr>\<rparr>"
  by (simp add: calculate_all_def calculate_rsi_def calculate_macd_def calculate_emas_def
      calculate_smas_def analyze_volume_def last_n_def np_diff_def np_mean64_def np_sum64_def
      np_mean_def true_div_def ema_of_def
      f64_sub_def f64_gt_def to_float64_def overflow_threshold_def Let_def f64_round_def
      py_round_def round_half_even_def)

lemma patchtst_predict_falling:
  "patchtst_predict (map (\<lambda>p. \<lparr>timestamp = 0, c_open = p + 1, c_high = p + 1, c_low = p, c_close = p, c_volume = 1000\<rparr>)
        [15, 14, 13, 12, 11, 10, 9, 8, 7, 6, 5, 4, 3, 2, 1])
      \<lparr>rsi = Some (Finite 0),
             macd = Some \<lparr>macd_line = 0, signal_line = 0, histogram = 0\<rparr>,
             ema = [(9, 5)], sma = [],
             volume = Some \<lparr>trend = stable, ratio = 1, recent_average = Some 1000,
                             overall_average = Some 1000\<rparr>\<rparr> =
     Some \<lparr>direction = bearish, confidence = 1300 / 17, probs = \<lparr>bullish_p = 0, bearish_p = 13 / 17, neutral_p = 4 / 17\<rparr>\<rparr>"
  by (simp add: patchtst_predict_def analyze_patterns_def patchtst_raw_probs_def
      patchtst_scores_def patchtst_momentum_def py_index_def last_n_def
      momentum_contribution_def candle_contribution_def rsi_contribution_def
      macd_contribution_def patchtst_direction_def patchtst_extract_features_def true_div_def
      truthy_def f64_gt_def Let_def)

lemma lgbm_predict_falling:
  "lgbm_predict (map (\<lambda>p. \<lparr>timestamp = 0, c_open = p + 1, c_high = p + 1, c_low = p, c_close = p, c_volume = 1000\<rparr>)
        [15, 14, 13, 12, 11, 10, 9, 8, 7, 6, 5, 4, 3, 2, 1])
      \<lparr>rsi = Some (Finite 0),
             macd = Some \<lparr>macd_line = 0, signal_line = 0, histogram = 0\<rparr>,
             ema = [(9, 5)], sma = [],
             volume = Some \<lparr>trend = stable, ratio = 1, recent_average = Some 1000,
                             overall_average = Some 1000\<rparr>\<rparr> =
     Some \<lparr>direction = bearish, confidence = 125 / 2, probs = \<lparr>bullish_p = 0, bearish_p = 5 / 8, neutral_p = 3 / 8\<rparr>\<rparr>"
  by (simp add: lgbm_predict_def lgbm_extract_features_def py_index_def last_n_def np_mean_def
      true_div_def truthy_def f64_gt_def rule_based_prediction_def lgbm_raw_probs_def
      lgbm_signals_def rsi_signals_def macd_signals_def trend_signals_def volume_signals_def
      momentum_5_signals_def momentum_10_signals_def lgbm_direction_def Let_def)

lemma hybrid_fuse_falling:
  "hybrid_fuse \<lparr>direction = bearish, confidence = 1300 / 17, probs = \<lparr>bullish_p = 0, bearish_p = 13 / 17, neutral_p = 4 / 17\<rparr>\<rparr>
      \<lparr>direction = bearish, confidence = 125 / 2, probs = \<lparr>bullish_p = 0, bearish_p = 5 / 8, neutral_p = 3 / 8\<rparr>\<rparr> =
     Some \<lparr>direction = bearish, confidence = 70.9,
             probs = \<lparr>bullish_p = 0, bearish_p = 70.9, neutral_p = 29.1\<rparr>,
             model_agreement = True, transformer_signal = bearish, lgbm_signal = bearish\<rparr>"
  by (simp add: hybrid_fuse_def hybrid_decision_def weighted_average_def
      transformer_weight_def lgbm_weight_def true_div_def prob_of_def Let_def py_round_def
      round_half_even_def)

lemma core_pipeline_falling:
  "core_pipeline (map (\<lambda>p. \<lparr>timestamp = 0, c_open = p + 1, c_high = p + 1, c_low = p, c_close = p, c_volume = 1000\<rparr>)
        [15, 14, 13, 12, 11, 10, 9, 8, 7, 6, 5, 4, 3, 2, 1]) =
     Some \<lparr>i_prediction =
             \<lparr>direction = bearish, confidence = 70.9,
             probs = \<lparr>bullish_p = 0, bearish_p = 70.9, neutral_p = 29.1\<rparr>,
             model_agreement = True, transformer_signal = bearish, lgbm_signal = bearish\<rparr>,
           i_technical =
             \<lparr>rsi = Some (Finite 0),
             macd = Some \<lparr>macd_line = 0, signal_line = 0, histogram = 0\<rparr>,
             ema = [(9, 5)], sma = [],
             volume = Some \<lparr>trend = stable, ratio = 1, recent_average = Some 1000,
                             overall_average = Some 1000\<rparr>\<rparr>,
           i_risk_level = low, i_warnings = []\<rparr>"
  by (simp only: core_pipeline_def calculate_all_falling Option.bind.simps hybrid_predict_def
      patchtst_predict_falling lgbm_predict_falling hybrid_fuse_falling)
     (simp add: assess_risk_def generate_warnings_def truthy_def)

lemma spec_warnings_falling:
  "spec_warnings
      \<lparr>direction = bearish, confidence = 70.9,
             probs = \<lparr>bullish_p = 0, bearish_p = 70.9, neutral_p = 29.1\<rparr>,
             model_agreement = True, transformer_signal = bearish, lgbm_signal = bearish\<rparr>
      \<lparr>rsi = Some (Finite 0),
             macd = Some \<lparr>macd_line = 0, signal_line = 0, histogram = 0\<rparr>,
             ema = [(9, 5)], sma = [],
             volume = Some \<lparr>trend = stable, ratio = 1, recent_average = Some 1000,
                             overall_average = Some 1000\<rparr>\<rparr> = [rsi_warning ''oversold'']"
  by (simp add: spec_warnings_def f64_gt_def)


text \<open>
  C3. When the two scorers agree on the direction (and the weighted probabilities do not
  all vanish, which no scorer output does), the decision keeps that direction, its
  probabilities are the per-class weighted averages (A 0.6, B 0.4) divided by their
  sum, so that they sum to 1, and its confidence before the cap is the larger of
  0.6 confA + 0.4 confB and 100 times the fused probability of the direction. The fused
  prediction has that direction, model\_agreement true, the capped and rounded
  confidence, and these probabilities as percentages rounded to one decimal.
\<close>

theorem agreement_rule:
  "direction a = direction b
   \<and> ((0.6 * bullish_p (probs a) + 0.4 * bullish_p (probs b)) + (0.6 * bearish_p (probs a) + 0.4 * bearish_p (probs b)) + (0.6 * neutral_p (probs a) + 0.4 * neutral_p (probs b))) \<noteq> 0 \<longrightarrow>
     (\<exists>pr c h. hybrid_decision a b = Some (direction a, pr, c)
        \<and> bullish_p pr = (0.6 * bullish_p (probs a) + 0.4 * bullish_p (probs b))
            / ((0.6 * bullish_p (probs a) + 0.4 * bullish_p (probs b)) + (0.6 * bearish_p (probs a) + 0.4 * bearish_p (probs b)) + (0.6 * neutral_p (probs a) + 0.4 * neutral_p (probs b)))
        \<and> bearish_p pr = (0.6 * bearish_p (probs a) + 0.4 * bearish_p (probs b))
            / ((0.6 * bullish_p (probs a) + 0.4 * bullish_p (probs b)) + (0.6 * bearish_p (probs a) + 0.4 * bearish_p (probs b)) + (0.6 * neutral_p (probs a) + 0.4 * neutral_p (probs b)))
        \<and> neutral_p pr = (0.6 * neutral_p (probs a) + 0.4 * neutral_p (probs b))
            / ((0.6 * bullish_p (probs a) + 0.4 * bullish_p (probs b)) + (0.6 * bearish_p (probs a) + 0.4 * bearish_p (probs b)) + (0.6 * neutral_p (probs a) + 0.4 * neutral_p (probs b)))
        \<and> bullish_p pr + bearish_p pr + neutral_p pr = 1
        \<and> c = max (0.6 * confidence a + 0.4 * confidence b)
                ((case direction a of bullish \<Rightarrow> bullish_p pr | bearish \<Rightarrow> bearish_p pr
                  | neutral \<Rightarrow> neutral_p pr) * 100)
        \<and> hybrid_fuse a b = Some h
        \<and> direction h = direction a
        \<and> model_agreement h
        \<and> transformer_signal h = direction a
        \<and> lgbm_signal h = direction b
        \<and> confidence h = py_round (min c 95) 1
        \<and> bullish_p (probs h) = py_round (bullish_p pr * 100) 1
        \<and> bearish_p (probs h) = py_round (bearish_p pr * 100) 1
        \<and> neutral_p (probs h) = py_round (neutral_p pr * 100) 1)"
proof (intro impI, elim conjE)
  assume d: "direction a = direction b"
  assume "((0.6 * bullish_p (probs a) + 0.4 * bullish_p (probs b)) + (0.6 * bearish_p (probs a) + 0.4 * bearish_p (probs b)) + (0.6 * neutral_p (probs a) + 0.4 * neutral_p (probs b))) \<noteq> 0"
  then have nz: "weighted_mass (probs a) (probs b) \<noteq> 0"
    by (simp add: weighted_mass_def weighted_class_def)
  note dec = hybrid_decision_agree [OF d nz]
  let ?R = "\<lparr>bullish_p = weighted_class bullish_p (probs a) (probs b) / weighted_mass (probs a) (probs b),
            bearish_p = weighted_class bearish_p (probs a) (probs b) / weighted_mass (probs a) (probs b),
            neutral_p = weighted_class neutral_p (probs a) (probs b) / weighted_mass (probs a) (probs b)\<rparr>"
  let ?blend = "0.6 * confidence a + 0.4 * confidence b"
  let ?c = "max ?blend (prob_of ?R (direction a) * 100)"
  show "(\<exists>pr c h. hybrid_decision a b = Some (direction a, pr, c)
        \<and> bullish_p pr = (0.6 * bullish_p (probs a) + 0.4 * bullish_p (probs b))
            / ((0.6 * bullish_p (probs a) + 0.4 * bullish_p (probs b)) + (0.6 * bearish_p (probs a) + 0.4 * bearish_p (probs b)) + (0.6 * neutral_p (probs a) + 0.4 * neutral_p (probs b)))
        \<and> bearish_p pr = (0.6 * bearish_p (probs a) + 0.4 * bearish_p (probs b))
            / ((0.6 * bullish_p (probs a) + 0.4 * bullish_p (probs b)) + (0.6 * bearish_p (probs a) + 0.4 * bearish_p (probs b)) + (0.6 * neutral_p (probs a) + 0.4 * neutral_p (probs b)))
        \<and> neutral_p pr = (0.6 * neutral_p (probs a) + 0.4 * neutral_p (probs b))
            / ((0.6 * bullish_p (probs a) + 0.4 * bullish_p (probs b)) + (0.6 * bearish_p (probs a) + 0.4 * bearish_p (probs b)) + (0.6 * neutral_p (probs a) + 0.4 * neutral_p (probs b)))
        \<and> bullish_p pr + bearish_p pr + neutral_p pr = 1
        \<and> c = max (0.6 * confidence a + 0.4 * confidence b)
                ((case direction a of bullish \<Rightarrow> bullish_p pr | bearish \<Rightarrow> bearish_p pr
                  | neutral \<Rightarrow> neutral_p pr) * 100)
        \<and> hybrid_fuse a b = Some h
        \<and> direction h = direction a
        \<and> model_agreement h
        \<and> transformer_signal h = direction a
        \<and> lgbm_signal h = direction b
        \<and> confidence h = py_round (min c 95) 1
        \<and> bullish_p (probs h) = py_round (bullish_p pr * 100) 1
        \<and> bearish_p (probs h) = py_round (bearish_p pr * 100) 1
        \<and> neutral_p (probs h) = py_round (neutral_p pr * 100) 1)"
  proof (intro exI conjI)
    show "hybrid_decision a b = Some (direction a, ?R, ?c)"
      by (rule dec)
    show "hybrid_fuse a b = Some \<lparr>direction = direction a,
        confidence = py_round (min ?c 95) 1, probs = percent ?R,
        model_agreement = (direction a = direction b),
        transformer_signal = direction a, lgbm_signal = direction b\<rparr>"
      by (rule hybrid_fuse_char [OF dec])
    show "bullish_p ?R + bearish_p ?R + neutral_p ?R = 1"
      using weighted_average_sum [OF nz] by simp
    show "?c = max ?blend
                ((case direction a of bullish \<Rightarrow> bullish_p ?R | bearish \<Rightarrow> bearish_p ?R
                  | neutral \<Rightarrow> neutral_p ?R) * 100)"
      by (simp only: prob_of_def)
  qed (use d in \<open>simp_all add: weighted_mass_def weighted_class_def percent_def\<close>)
qed

theorem agreement_rule_witness:
  "(direction \<lparr>direction = bullish, confidence = 50, probs = \<lparr>bullish_p = 0.8, bearish_p = 0.1, neutral_p = 0.1\<rparr>\<rparr> = direction \<lparr>direction = bullish, confidence = 60, probs = \<lparr>bullish_p = 0.7, bearish_p = 0.1, neutral_p = 0.2\<rparr>\<rparr>
   \<and> ((0.6 * bullish_p (probs \<lparr>direction = bullish, confidence = 50, probs = \<lparr>bullish_p = 0.8, bearish_p = 0.1, neutral_p = 0.1\<rparr>\<rparr>) + 0.4 * bullish_p (probs \<lparr>direction = bullish, confidence = 60, probs = \<lparr>bullish_p = 0.7, bearish_p = 0.1, neutral_p = 0.2\<rparr>\<rparr>)) + (0.6 * bearish_p (probs \<lparr>direction = bullish, confidence = 50, probs = \<lparr>bullish_p = 0.8, bearish_p = 0.1, neutral_p = 0.1\<rparr>\<rparr>) + 0.4 * bearish_p (probs \<lparr>direction = bullish, confidence = 60, probs = \<lparr>bullish_p = 0.7, bearish_p = 0.1, neutral_p = 0.2\<rparr>\<rparr>)) + (0.6 * neutral_p (probs \<lparr>direction = bullish, confidence = 50, probs = \<lparr>bullish_p = 0.8, bearish_p = 0.1, neutral_p = 0.1\<rparr>\<rparr>) + 0.4 * neutral_p (probs \<lparr>direction = bullish, confidence = 60, probs = \<lparr>bullish_p = 0.7, bearish_p = 0.1, neutral_p = 0.2\<rparr>\<rparr>))) \<noteq> 0)
   \<and> (\<exists>pr c h. hybrid_decision \<lparr>direction = bullish, confidence = 50, probs = \<lparr>bullish_p = 0.8, bearish_p = 0.1, neutral_p = 0.1\<rparr>\<rparr> \<lparr>direction = bullish, confidence = 60, probs = \<lparr>bullish_p = 0.7, bearish_p = 0.1, neutral_p = 0.2\<rparr>\<rparr> = Some (direction \<lparr>direction = bullish, confidence = 50, probs = \<lparr>bullish_p = 0.8, bearish_p = 0.1, neutral_p = 0.1\<rparr>\<rparr>, pr, c)
        \<and> bullish_p pr = (0.6 * bullish_p (probs \<lparr>direction = bullish, confidence = 50, probs = \<lparr>bullish_p = 0.8, bearish_p = 0.1, neutral_p = 0.1\<rparr>\<rparr>) + 0.4 * bullish_p (probs \<lparr>direction = bullish, confidence = 60, probs = \<lparr>bullish_p = 0.7, bearish_p = 0.1, neutral_p = 0.2\<rparr>\<rparr>))
            / ((0.6 * bullish_p (probs \<lparr>direction = bullish, confidence = 50, probs = \<lparr>bullish_p = 0.8, bearish_p = 0.1, neutral_p = 0.1\<rparr>\<rparr>) + 0.4 * bullish_p (probs \<lparr>direction = bullish, confidence = 60, probs = \<lparr>bullish_p = 0.7, bearish_p = 0.1, neutral_p = 0.2\<rparr>\<rparr>)) + (0.6 * bearish_p (probs \<lparr>direction = bullish, confidence = 50, probs = \<lparr>bullish_p = 0.8, bearish_p = 0.1, neutral_p = 0.1\<rparr>\<rparr>) + 0.4 * bearish_p (probs \<lparr>direction = bullish, confidence = 60, probs = \<lparr>bullish_p = 0.7, bearish_p = 0.1, neutral_p = 0.2\<rparr>\<rparr>)) + (0.6 * neutral_p (probs \<lparr>direction = bullish, confidence = 50, probs = \<lparr>bullish_p = 0.8, bearish_p = 0.1, neutral_p = 0.1\<rparr>\<rparr>) + 0.4 * neutral_p (probs \<lparr>direction = bullish, confidence = 60, probs = \<lparr>bullish_p = 0.7, bearish_p = 0.1, neutral_p = 0.2\<rparr>\<rparr>)))
        \<and> bearish_p pr = (0.6 * bearish_p (probs \<lparr>direction = bullish, confidence = 50, probs = \<lparr>bullish_p = 0.8, bearish_p = 0.1, neutral_p = 0.1\<rparr>\<rparr>) + 0.4 * bearish_p (probs \<lparr>direction = bullish, confidence = 60, probs = \<lparr>bullish_p = 0.7, bearish_p = 0.1, neutral_p = 0.2\<rparr>\<rparr>))
            / ((0.6 * bullish_p (probs \<lparr>direction = bullish, confidence = 50, probs = \<lparr>bullish_p = 0.8, bearish_p = 0.1, neutral_p = 0.1\<rparr>\<rparr>) + 0.4 * bullish_p (probs \<lparr>direction = bullish, confidence = 60, probs = \<lparr>bullish_p = 0.7, bearish_p = 0.1, neutral_p = 0.2\<rparr>\<rparr>)) + (0.6 * bearish_p (probs \<lparr>direction = bullish, confidence = 50, probs = \<lparr>bullish_p = 0.8, bearish_p = 0.1, neutral_p = 0.1\<rparr>\<rparr>) + 0.4 * bearish_p (probs \<lparr>direction = bullish, confidence = 60, probs = \<lparr>bullish_p = 0.7, bearish_p = 0.1, neutral_p = 0.2\<rparr>\<rparr>)) + (0.6 * neutral_p (probs \<lparr>direction = bullish, confidence = 50, probs = \<lparr>bullish_p = 0.8, bearish_p = 0.1, neutral_p = 0.1\<rparr>\<rparr>) + 0.4 * neutral_p (probs \<lparr>direction = bullish, confidence = 60, probs = \<lparr>bullish_p = 0.7, bearish_p = 0.1, neutral_p = 0.2\<rparr>\<rparr>)))
        \<and> neutral_p pr = (0.6 * neutral_p (probs \<lparr>direction = bullish, confidence = 50, probs = \<lparr>bullish_p = 0.8, bearish_p = 0.1, neutral_p = 0.1\<rparr>\<rparr>) + 0.4 * neutral_p (probs \<lparr>direction = bullish, confidence = 60, probs = \<lparr>bullish_p = 0.7, bearish_p = 0.1, neutral_p = 0.2\<rparr>\<rparr>))
            / ((0.6 * bullish_p (probs \<lparr>direction = bullish, confidence = 50, probs = \<lparr>bullish_p = 0.8, bearish_p = 0.1, neutral_p = 0.1\<rparr>\<rparr>) + 0.4 * bullish_p (probs \<lparr>direction = bullish, confidence = 60, probs = \<lparr>bullish_p = 0.7, bearish_p = 0.1, neutral_p = 0.2\<rparr>\<rparr>)) + (0.6 * bearish_p (probs \<lparr>direction = bullish, confidence = 50, probs = \<lparr>bullish_p = 0.8, bearish_p = 0.1, neutral_p = 0.1\<rparr>\<rparr>) + 0.4 * bearish_p (probs \<lparr>direction = bullish, confidence = 60, probs = \<lparr>bullish_p = 0.7, bearish_p = 0.1, neutral_p = 0.2\<rparr>\<rparr>)) + (0.6 * neutral_p (probs \<lparr>direction = bullish, confidence = 50, probs = \<lparr>bullish_p = 0.8, bearish_p = 0.1, neutral_p = 0.1\<rparr>\<rparr>) + 0.4 * neutral_p (probs \<lparr>direction = bullish, confidence = 60, probs = \<lparr>bullish_p = 0.7, bearish_p = 0.1, neutral_p = 0.2\<rparr>\<rparr>)))
        \<and> bullish_p pr + bearish_p pr + neutral_p pr = 1
        \<and> c = max (0.6 * confidence \<lparr>direction = bullish, confidence = 50, probs = \<lparr>bullish_p = 0.8, bearish_p = 0.1, neutral_p = 0.1\<rparr>\<rparr> + 0.4 * confidence \<lparr>direction = bullish, confidence = 60, probs = \<lparr>bullish_p = 0.7, bearish_p = 0.1, neutral_p = 0.2\<rparr>\<rparr>)
                ((case direction \<lparr>direction = bullish, confidence = 50, probs = \<lparr>bullish_p = 0.8, bearish_p = 0.1, neutral_p = 0.1\<rparr>\<rparr> of bullish \<Rightarrow> bullish_p pr | bearish \<Rightarrow> bearish_p pr
                  | neutral \<Rightarrow> neutral_p pr) * 100)
        \<and> hybrid_fuse \<lparr>direction = bullish, confidence = 50, probs = \<lparr>bullish_p = 0.8, bearish_p = 0.1, neutral_p = 0.1\<rparr>\<rparr> \<lparr>direction = bullish, confidence = 60, probs = \<lparr>bullish_p = 0.7, bearish_p = 0.1, neutral_p = 0.2\<rparr>\<rparr> = Some h
        \<and> direction h = direction \<lparr>direction = bullish, confidence = 50, probs = \<lparr>bullish_p = 0.8, bearish_p = 0.1, neutral_p = 0.1\<rparr>\<rparr>
        \<and> model_agreement h
        \<and> transformer_signal h = direction \<lparr>direction = bullish, confidence = 50, probs = \<lparr>bullish_p = 0.8, bearish_p = 0.1, neutral_p = 0.1\<rparr>\<rparr>
        \<and> lgbm_signal h = direction \<lparr>direction = bullish, confidence = 60, probs = \<lparr>bullish_p = 0.7, bearish_p = 0.1, neutral_p = 0.2\<rparr>\<rparr>
        \<and> confidence h = py_round (min c 95) 1
        \<and> bullish_p (probs h) = py_round (bullish_p pr * 100) 1
        \<and> bearish_p (probs h) = py_round (bearish_p pr * 100) 1
        \<and> neutral_p (probs h) = py_round (neutral_p pr * 100) 1)"
proof (rule conjI)
  show h: "direction \<lparr>direction = bullish, confidence = 50, probs = \<lparr>bullish_p = 0.8, bearish_p = 0.1, neutral_p = 0.1\<rparr>\<rparr> = direction \<lparr>direction = bullish, confidence = 60, probs = \<lparr>bullish_p = 0.7, bearish_p = 0.1, neutral_p = 0.2\<rparr>\<rparr>
   \<and> ((0.6 * bullish_p (probs \<lparr>direction = bullish, confidence = 50, probs = \<lparr>bullish_p = 0.8, bearish_p = 0.1, neutral_p = 0.1\<rparr>\<rparr>) + 0.4 * bullish_p (probs \<lparr>direction = bullish, confidence = 60, probs = \<lparr>bullish_p = 0.7, bearish_p = 0.1, neutral_p = 0.2\<rparr>\<rparr>)) + (0.6 * bearish_p (probs \<lparr>direction = bullish, confidence = 50, probs = \<lparr>bullish_p = 0.8, bearish_p = 0.1, neutral_p = 0.1\<rparr>\<rparr>) + 0.4 * bearish_p (probs \<lparr>direction = bullish, confidence = 60, probs = \<lparr>bullish_p = 0.7, bearish_p = 0.1, neutral_p = 0.2\<rparr>\<rparr>)) + (0.6 * neutral_p (probs \<lparr>direction = bullish, confidence = 50, probs = \<lparr>bullish_p = 0.8, bearish_p = 0.1, neutral_p = 0.1\<rparr>\<rparr>) + 0.4 * neutral_p (probs \<lparr>direction = bullish, confidence = 60, probs = \<lparr>bullish_p = 0.7, bearish_p = 0.1, neutral_p = 0.2\<rparr>\<rparr>))) \<noteq> 0"
    by simp
  show "(\<exists>pr c h. hybrid_decision \<lparr>direction = bullish, confidence = 50, probs = \<lparr>bullish_p = 0.8, bearish_p = 0.1, neutral_p = 0.1\<rparr>\<rparr> \<lparr>direction = bullish, confidence = 60, probs = \<lparr>bullish_p = 0.7, bearish_p = 0.1, neutral_p = 0.2\<rparr>\<rparr> = Some (direction \<lparr>direction = bullish, confidence = 50, probs = \<lparr>bullish_p = 0.8, bearish_p = 0.1, neutral_p = 0.1\<rparr>\<rparr>, pr, c)
        \<and> bullish_p pr = (0.6 * bullish_p (probs \<lparr>direction = bullish, confidence = 50, probs = \<lparr>bullish_p = 0.8, bearish_p = 0.1, neutral_p = 0.1\<rparr>\<rparr>) + 0.4 * bullish_p (probs \<lparr>direction = bullish, confidence = 60, probs = \<lparr>bullish_p = 0.7, bearish_p = 0.1, neutral_p = 0.2\<rparr>\<rparr>))
            / ((0.6 * bullish_p (probs \<lparr>direction = bullish, confidence = 50, probs = \<lparr>bullish_p = 0.8, bearish_p = 0.1, neutral_p = 0.1\<rparr>\<rparr>) + 0.4 * bullish_p (probs \<lparr>direction = bullish, confidence = 60, probs = \<lparr>bullish_p = 0.7, bearish_p = 0.1, neutral_p = 0.2\<rparr>\<rparr>)) + (0.6 * bearish_p (probs \<lparr>direction = bullish, confidence = 50, probs = \<lparr>bullish_p = 0.8, bearish_p = 0.1, neutral_p = 0.1\<rparr>\<rparr>) + 0.4 * bearish_p (probs \<lparr>direction = bullish, confidence = 60, probs = \<lparr>bullish_p = 0.7, bearish_p = 0.1, neutral_p = 0.2\<rparr>\<rparr>)) + (0.6 * neutral_p (probs \<lparr>direction = bullish, confidence = 50, probs = \<lparr>bullish_p = 0.8, bearish_p = 0.1, neutral_p = 0.1\<rparr>\<rparr>) + 0.4 * neutral_p (probs \<lparr>direction = bullish, confidence = 60, probs = \<lparr>bullish_p = 0.7, bearish_p = 0.1, neutral_p = 0.2\<rparr>\<rparr>)))
        \<and> bearish_p pr = (0.6 * bearish_p (probs \<lparr>direction = bullish, confidence = 50, probs = \<lparr>bullish_p = 0.8, bearish_p = 0.1, neutral_p = 0.1\<rparr>\<rparr>) + 0.4 * bearish_p (probs \<lparr>direction = bullish, confidence = 60, probs = \<lparr>bullish_p = 0.7, bearish_p = 0.1, neutral_p = 0.2\<rparr>\<rparr>))
            / ((0.6 * bullish_p (probs \<lparr>direction = bullish, confidence = 50, probs = \<lparr>bullish_p = 0.8, bearish_p = 0.1, neutral_p = 0.1\<rparr>\<rparr>) + 0.4 * bullish_p (probs \<lparr>direction = bullish, confidence = 60, probs = \<lparr>bullish_p = 0.7, bearish_p = 0.1, neutral_p = 0.2\<rparr>\<rparr>)) + (0.6 * bearish_p (probs \<lparr>direction = bullish, confidence = 50, probs = \<lparr>bullish_p = 0.8, bearish_p = 0.1, neutral_p = 0.1\<rparr>\<rparr>) + 0.4 * bearish_p (probs \<lparr>direction = bullish, confidence = 60, probs = \<lparr>bullish_p = 0.7, bearish_p = 0.1, neutral_p = 0.2\<rparr>\<rparr>)) + (0.6 * neutral_p (probs \<lparr>direction = bullish, confidence = 50, probs = \<lparr>bullish_p = 0.8, bearish_p = 0.1, neutral_p = 0.1\<rparr>\<rparr>) + 0.4 * neutral_p (probs \<lparr>direction = bullish, confidence = 60, probs = \<lparr>bullish_p = 0.7, bearish_p = 0.1, neutral_p = 0.2\<rparr>\<rparr>)))
        \<and> neutral_p pr = (0.6 * neutral_p (probs \<lparr>direction = bullish, confidence = 50, probs = \<lparr>bullish_p = 0.8, bearish_p = 0.1, neutral_p = 0.1\<rparr>\<rparr>) + 0.4 * neutral_p (probs \<lparr>direction = bullish, confidence = 60, probs = \<lparr>bullish_p = 0.7, bearish_p = 0.1, neutral_p = 0.2\<rparr>\<rparr>))
            / ((0.6 * bullish_p (probs \<lparr>direction = bullish, confidence = 50, probs = \<lparr>bullish_p = 0.8, bearish_p = 0.1, neutral_p = 0.1\<rparr>\<rparr>) + 0.4 * bullish_p (probs \<lparr>direction = bullish, confidence = 60, probs = \<lparr>bullish_p = 0.7, bearish_p = 0.1, neutral_p = 0.2\<rparr>\<rparr>)) + (0.6 * bearish_p (probs \<lparr>direction = bullish, confidence = 50, probs = \<lparr>bullish_p = 0.8, bearish_p = 0.1, neutral_p = 0.1\<rparr>\<rparr>) + 0.4 * bearish_p (probs \<lparr>direction = bullish, confidence = 60, probs = \<lparr>bullish_p = 0.7, bearish_p = 0.1, neutral_p = 0.2\<rparr>\<rparr>)) + (0.6 * neutral_p (probs \<lparr>direction = bullish, confidence = 50, probs = \<lparr>bullish_p = 0.8, bearish_p = 0.1, neutral_p = 0.1\<rparr>\<rparr>) + 0.4 * neutral_p (probs \<lparr>direction = bullish, confidence = 60, probs = \<lparr>bullish_p = 0.7, bearish_p = 0.1, neutral_p = 0.2\<rparr>\<rparr>)))
        \<and> bullish_p pr + bearish_p pr + neutral_p pr = 1
        \<and> c = max (0.6 * confidence \<lparr>direction = bullish, confidence = 50, probs = \<lparr>bullish_p = 0.8, bearish_p = 0.1, neutral_p = 0.1\<rparr>\<rparr> + 0.4 * confidence \<lparr>direction = bullish, confidence = 60, probs = \<lparr>bullish_p = 0.7, bearish_p = 0.1, neutral_p = 0.2\<rparr>\<rparr>)
                ((case direction \<lparr>direction = bullish, confidence = 50, probs = \<lparr>bullish_p = 0.8, bearish_p = 0.1, neutral_p = 0.1\<rparr>\<rparr> of bullish \<Rightarrow> bullish_p pr | bearish \<Rightarrow> bearish_p pr
                  | neutral \<Rightarrow> neutral_p pr) * 100)
        \<and> hybrid_fuse \<lparr>direction = bullish, confidence = 50, probs = \<lparr>bullish_p = 0.8, bearish_p = 0.1, neutral_p = 0.1\<rparr>\<rparr> \<lparr>direction = bullish, confidence = 60, probs = \<lparr>bullish_p = 0.7, bearish_p = 0.1, neutral_p = 0.2\<rparr>\<rparr> = Some h
        \<and> direction h = direction \<lparr>direction = bullish, confidence = 50, probs = \<lparr>bullish_p = 0.8, bearish_p = 0.1, neutral_p = 0.1\<rparr>\<rparr>
        \<and> model_agreement h
        \<and> transformer_signal h = direction \<lparr>direction = bullish, confidence = 50, probs = \<lparr>bullish_p = 0.8, bearish_p = 0.1, neutral_p = 0.1\<rparr>\<rparr>
        \<and> lgbm_signal h = direction \<lparr>direction = bullish, confidence = 60, probs = \<lparr>bullish_p = 0.7, bearish_p = 0.1, neutral_p = 0.2\<rparr>\<rparr>
        \<and> confidence h = py_round (min c 95) 1
        \<and> bullish_p (probs h) = py_round (bullish_p pr * 100) 1
        \<and> bearish_p (probs h) = py_round (bearish_p pr * 100) 1
        \<and> neutral_p (probs h) = py_round (neutral_p pr * 100) 1)"
    by (rule mp [OF agreement_rule h])
qed


text \<open>
  C2. When the two scorers disagree on the direction: if A's confidence is above 70 and
  more than 20 above B's, the decision is A's direction and probabilities with A's
  confidence times 0.7, and symmetrically for B; otherwise it is neutral with
  probabilities 0.33, 0.33 and 0.34 and confidence 40. The fused prediction reports this
  decision (confidence capped at 95 and rounded to one decimal, probabilities as
  percentages) with model\_agreement false. A bullish at 80 against B bearish at 50
  gives bullish with confidence 56.0.
\<close>

theorem disagreement_rule:
  "(direction a \<noteq> direction b \<longrightarrow>
      (70 < confidence a \<and> confidence b + 20 < confidence a \<longrightarrow>
         hybrid_decision a b = Some (direction a, probs a, confidence a * 0.7))
      \<and> (70 < confidence b \<and> confidence a + 20 < confidence b \<longrightarrow>
         hybrid_decision a b = Some (direction b, probs b, confidence b * 0.7))
      \<and> (\<not> (70 < confidence a \<and> confidence b + 20 < confidence a)
           \<and> \<not> (70 < confidence b \<and> confidence a + 20 < confidence b) \<longrightarrow>
         hybrid_decision a b = Some (neutral, \<lparr>bullish_p = 0.33, bearish_p = 0.33, neutral_p = 0.34\<rparr>, 40))
      \<and> (\<exists>d pr c h. hybrid_decision a b = Some (d, pr, c) \<and> hybrid_fuse a b = Some h
           \<and> direction h = d \<and> confidence h = py_round (min c 95) 1
           \<and> probs h = percent pr \<and> \<not> model_agreement h))
   \<and> (\<exists>h. hybrid_fuse \<lparr>direction = bullish, confidence = 80, probs = pa\<rparr>
              \<lparr>direction = bearish, confidence = 50, probs = pb\<rparr> = Some h
         \<and> direction h = bullish \<and> confidence h = 56)"
proof (intro conjI impI)
  assume d: "direction a \<noteq> direction b"
  note dec = hybrid_decision_disagree [OF d]
  show "hybrid_decision a b = Some (direction a, probs a, confidence a * 0.7)"
    if "70 < confidence a \<and> confidence b + 20 < confidence a"
    using that by (simp add: dec)
  show "hybrid_decision a b = Some (direction b, probs b, confidence b * 0.7)"
    if "70 < confidence b \<and> confidence a + 20 < confidence b"
    using that by (simp add: dec)
  show "hybrid_decision a b = Some (neutral, \<lparr>bullish_p = 0.33, bearish_p = 0.33, neutral_p = 0.34\<rparr>, 40)"
    if "\<not> (70 < confidence a \<and> confidence b + 20 < confidence a)
           \<and> \<not> (70 < confidence b \<and> confidence a + 20 < confidence b)"
    using that by (simp add: dec)
  have "\<exists>d' pr c. hybrid_decision a b = Some (d', pr, c)"
  proof (cases "70 < confidence a \<and> confidence b + 20 < confidence a")
    case True
    then have "hybrid_decision a b = Some (direction a, probs a, confidence a * 0.7)"
      by (simp add: dec)
    then show ?thesis by blast
  next
    case first: False
    show ?thesis
    proof (cases "70 < confidence b \<and> confidence a + 20 < confidence b")
      case True
      with first have "hybrid_decision a b = Some (direction b, probs b, confidence b * 0.7)"
        by (simp add: dec)
      then show ?thesis by blast
    next
      case False
      with first have "hybrid_decision a b = Some (neutral, \<lparr>bullish_p = 0.33, bearish_p = 0.33, neutral_p = 0.34\<rparr>, 40)"
        by (simp add: dec)
      then show ?thesis by blast
    qed
  qed
  then obtain d' pr c where e: "hybrid_decision a b = Some (d', pr, c)" by blast
  show "\<exists>d pr c h. hybrid_decision a b = Some (d, pr, c) \<and> hybrid_fuse a b = Some h
           \<and> direction h = d \<and> confidence h = py_round (min c 95) 1
           \<and> probs h = percent pr \<and> \<not> model_agreement h"
    using d by (simp add: e hybrid_fuse_char [OF e])
next
  let ?a = "\<lparr>direction = bullish, confidence = 80, probs = pa\<rparr>"
  let ?b = "\<lparr>direction = bearish, confidence = 50, probs = pb\<rparr>"
  have "hybrid_decision ?a ?b = Some (bullish, pa, 56)"
    by (simp add: hybrid_decision_def Let_def)
  from hybrid_fuse_char [OF this] show "\<exists>h. hybrid_fuse ?a ?b = Some h
         \<and> direction h = bullish \<and> confidence h = 56"
    by (simp add: py_round_def round_half_even_def)
qed

theorem disagreement_rule_witness:
  "direction \<lparr>direction = bullish, confidence = 80, probs = \<lparr>bullish_p = 0.8, bearish_p = 0, neutral_p = 0.2\<rparr>\<rparr> \<noteq> direction \<lparr>direction = bearish, confidence = 50, probs = \<lparr>bullish_p = 0.2, bearish_p = 0.5, neutral_p = 0.3\<rparr>\<rparr>
   \<and> 70 < confidence \<lparr>direction = bullish, confidence = 80, probs = \<lparr>bullish_p = 0.8, bearish_p = 0, neutral_p = 0.2\<rparr>\<rparr>
   \<and> confidence \<lparr>direction = bearish, confidence = 50, probs = \<lparr>bullish_p = 0.2, bearish_p = 0.5, neutral_p = 0.3\<rparr>\<rparr> + 20 < confidence \<lparr>direction = bullish, confidence = 80, probs = \<lparr>bullish_p = 0.8, bearish_p = 0, neutral_p = 0.2\<rparr>\<rparr>
   \<and> hybrid_decision \<lparr>direction = bullish, confidence = 80, probs = \<lparr>bullish_p = 0.8, bearish_p = 0, neutral_p = 0.2\<rparr>\<rparr> \<lparr>direction = bearish, confidence = 50, probs = \<lparr>bullish_p = 0.2, bearish_p = 0.5, neutral_p = 0.3\<rparr>\<rparr> = Some (bullish, \<lparr>bullish_p = 0.8, bearish_p = 0, neutral_p = 0.2\<rparr>, 56)
   \<and> direction \<lparr>direction = neutral, confidence = 50, probs = \<lparr>bullish_p = 0.3, bearish_p = 0.3, neutral_p = 0.4\<rparr>\<rparr> \<noteq> direction \<lparr>direction = bearish, confidence = 85, probs = \<lparr>bullish_p = 0.1, bearish_p = 0.6, neutral_p = 0.3\<rparr>\<rparr>
   \<and> 70 < confidence \<lparr>direction = bearish, confidence = 85, probs = \<lparr>bullish_p = 0.1, bearish_p = 0.6, neutral_p = 0.3\<rparr>\<rparr>
   \<and> confidence \<lparr>direction = neutral, confidence = 50, probs = \<lparr>bullish_p = 0.3, bearish_p = 0.3, neutral_p = 0.4\<rparr>\<rparr> + 20 < confidence \<lparr>direction = bearish, confidence = 85, probs = \<lparr>bullish_p = 0.1, bearish_p = 0.6, neutral_p = 0.3\<rparr>\<rparr>
   \<and> hybrid_decision \<lparr>direction = neutral, confidence = 50, probs = \<lparr>bullish_p = 0.3, bearish_p = 0.3, neutral_p = 0.4\<rparr>\<rparr> \<lparr>direction = bearish, confidence = 85, probs = \<lparr>bullish_p = 0.1, bearish_p = 0.6, neutral_p = 0.3\<rparr>\<rparr> = Some (bearish, \<lparr>bullish_p = 0.1, bearish_p = 0.6, neutral_p = 0.3\<rparr>, 59.5)
   \<and> direction \<lparr>direction = bullish, confidence = 60, probs = \<lparr>bullish_p = 0.6, bearish_p = 0.2, neutral_p = 0.2\<rparr>\<rparr> \<noteq> direction \<lparr>direction = bearish, confidence = 50, probs = \<lparr>bullish_p = 0.2, bearish_p = 0.5, neutral_p = 0.3\<rparr>\<rparr>
   \<and> \<not> (70 < confidence \<lparr>direction = bullish, confidence = 60, probs = \<lparr>bullish_p = 0.6, bearish_p = 0.2, neutral_p = 0.2\<rparr>\<rparr> \<and> confidence \<lparr>direction = bearish, confidence = 50, probs = \<lparr>bullish_p = 0.2, bearish_p = 0.5, neutral_p = 0.3\<rparr>\<rparr> + 20 < confidence \<lparr>direction = bullish, confidence = 60, probs = \<lparr>bullish_p = 0.6, bearish_p = 0.2, neutral_p = 0.2\<rparr>\<rparr>)
   \<and> \<not> (70 < confidence \<lparr>direction = bearish, confidence = 50, probs = \<lparr>bullish_p = 0.2, bearish_p = 0.5, neutral_p = 0.3\<rparr>\<rparr> \<and> confidence \<lparr>direction = bullish, confidence = 60, probs = \<lparr>bullish_p = 0.6, bearish_p = 0.2, neutral_p = 0.2\<rparr>\<rparr> + 20 < confidence \<lparr>direction = bearish, confidence = 50, probs = \<lparr>bullish_p = 0.2, bearish_p = 0.5, neutral_p = 0.3\<rparr>\<rparr>)
   \<and> hybrid_decision \<lparr>direction = bullish, confidence = 60, probs = \<lparr>bullish_p = 0.6, bearish_p = 0.2, neutral_p = 0.2\<rparr>\<rparr> \<lparr>direction = bearish, confidence = 50, probs = \<lparr>bullish_p = 0.2, bearish_p = 0.5, neutral_p = 0.3\<rparr>\<rparr> = Some (neutral, \<lparr>bullish_p = 0.33, bearish_p = 0.33, neutral_p = 0.34\<rparr>, 40)"
  using disagreement_rule [of "\<lparr>direction = bullish, confidence = 80, probs = \<lparr>bullish_p = 0.8, bearish_p = 0, neutral_p = 0.2\<rparr>\<rparr>" "\<lparr>direction = bearish, confidence = 50, probs = \<lparr>bullish_p = 0.2, bearish_p = 0.5, neutral_p = 0.3\<rparr>\<rparr>"]
    disagreement_rule [of "\<lparr>direction = neutral, confidence = 50, probs = \<lparr>bullish_p = 0.3, bearish_p = 0.3, neutral_p = 0.4\<rparr>\<rparr>" "\<lparr>direction = bearish, confidence = 85, probs = \<lparr>bullish_p = 0.1, bearish_p = 0.6, neutral_p = 0.3\<rparr>\<rparr>"]
    disagreement_rule [of "\<lparr>direction = bullish, confidence = 60, probs = \<lparr>bullish_p = 0.6, bearish_p = 0.2, neutral_p = 0.2\<rparr>\<rparr>" "\<lparr>direction = bearish, confidence = 50, probs = \<lparr>bullish_p = 0.2, bearish_p = 0.5, neutral_p = 0.3\<rparr>\<rparr>"]
  by simp

text \<open>
  C10. With at least five candles the raw neutral probability of each scorer is above
  the floor of 0.1: in the pattern scorer it is 20 / (bullish\_score + bearish\_score + 20)
  with the two scores summing to at most 90, in the rule scorer it is
  3 / (bullish\_signals + bearish\_signals + 3) with the two counts summing to at most 9.
  So the reported neutral probability is the raw one and the three reported
  probabilities sum to exactly 1.
\<close>

theorem neutral_floor_never_binds:
  "5 \<le> length candles \<longrightarrow>
     (\<exists>s p out. patchtst_scores candles ind = Some s
        \<and> fst s + snd s \<le> 90
        \<and> patchtst_raw_probs candles ind = Some p
        \<and> snd (snd p) = 20 / of_int (fst s + snd s + 20)
        \<and> 1 / 10 < snd (snd p)
        \<and> max (snd (snd p)) (1 / 10) = snd (snd p)
        \<and> patchtst_predict candles ind = Some out
        \<and> bullish_p (probs out) = fst p \<and> bearish_p (probs out) = fst (snd p)
        \<and> neutral_p (probs out) = snd (snd p)
        \<and> bullish_p (probs out) + bearish_p (probs out) + neutral_p (probs out) = 1)
   \<and> (\<exists>f p out. lgbm_extract_features candles ind = Some f
        \<and> fst (lgbm_signals f) + snd (lgbm_signals f) \<le> 9
        \<and> lgbm_raw_probs f = Some p
        \<and> snd (snd p) = 3 / of_int (fst (lgbm_signals f) + snd (lgbm_signals f) + 3)
        \<and> 1 / 10 < snd (snd p)
        \<and> max (snd (snd p)) (1 / 10) = snd (snd p)
        \<and> lgbm_predict candles ind = Some out
        \<and> bullish_p (probs out) = fst p \<and> bearish_p (probs out) = fst (snd p)
        \<and> neutral_p (probs out) = snd (snd p)
        \<and> bullish_p (probs out) + bearish_p (probs out) + neutral_p (probs out) = 1)"
  using patchtst_floor_inactive [of candles ind] lgbm_floor_inactive [of candles ind]
  by blast

theorem neutral_floor_never_binds_witness:
  "5 \<le> length (replicate 5 \<lparr>timestamp = 0, c_open = 10, c_high = 12, c_low = 9, c_close = 11, c_volume = 100\<rparr>)
   \<and> ((\<exists>s p out. patchtst_scores (replicate 5 \<lparr>timestamp = 0, c_open = 10, c_high = 12, c_low = 9, c_close = 11, c_volume = 100\<rparr>) no_indicators = Some s
        \<and> fst s + snd s \<le> 90
        \<and> patchtst_raw_probs (replicate 5 \<lparr>timestamp = 0, c_open = 10, c_high = 12, c_low = 9, c_close = 11, c_volume = 100\<rparr>) no_indicators = Some p
        \<and> snd (snd p) = 20 / of_int (fst s + snd s + 20)
        \<and> 1 / 10 < snd (snd p)
        \<and> max (snd (snd p)) (1 / 10) = snd (snd p)
        \<and> patchtst_predict (replicate 5 \<lparr>timestamp = 0, c_open = 10, c_high = 12, c_low = 9, c_close = 11, c_volume = 100\<rparr>) no_indicators = Some out
        \<and> bullish_p (probs out) = fst p \<and> bearish_p (probs out) = fst (snd p)
        \<and> neutral_p (probs out) = snd (snd p)
        \<and> bullish_p (probs out) + bearish_p (probs out) + neutral_p (probs out) = 1)
   \<and> (\<exists>f p out. lgbm_extract_features (replicate 5 \<lparr>timestamp = 0, c_open = 10, c_high = 12, c_low = 9, c_close = 11, c_volume = 100\<rparr>) no_indicators = Some f
        \<and> fst (lgbm_signals f) + snd (lgbm_signals f) \<le> 9
        \<and> lgbm_raw_probs f = Some p
        \<and> snd (snd p) = 3 / of_int (fst (lgbm_signals f) + snd (lgbm_signals f) + 3)
        \<and> 1 / 10 < snd (snd p)
        \<and> max (snd (snd p)) (1 / 10) = snd (snd p)
        \<and> lgbm_predict (replicate 5 \<lparr>timestamp = 0, c_open = 10, c_high = 12, c_low = 9, c_close = 11, c_volume = 100\<rparr>) no_indicators = Some out
        \<and> bullish_p (probs out) = fst p \<and> bearish_p (probs out) = fst (snd p)
        \<and> neutral_p (probs out) = snd (snd p)
        \<and> bullish_p (probs out) + bearish_p (probs out) + neutral_p (probs out) = 1))"
proof (rule conjI)
  show h: "5 \<le> length (replicate 5 \<lparr>timestamp = 0, c_open = 10, c_high = 12, c_low = 9, c_close = 11, c_volume = 100\<rparr>)"
    by simp
  show "(\<exists>s p out. patchtst_scores (replicate 5 \<lparr>timestamp = 0, c_open = 10, c_high = 12, c_low = 9, c_close = 11, c_volume = 100\<rparr>) no_indicators = Some s
        \<and> fst s + snd s \<le> 90
        \<and> patchtst_raw_probs (replicate 5 \<lparr>timestamp = 0, c_open = 10, c_high = 12, c_low = 9, c_close = 11, c_volume = 100\<rparr>) no_indicators = Some p
        \<and> snd (snd p) = 20 / of_int (fst s + snd s + 20)
        \<and> 1 / 10 < snd (snd p)
        \<and> max (snd (snd p)) (1 / 10) = snd (snd p)
        \<and> patchtst_predict (replicate 5 \<lparr>timestamp = 0, c_open = 10, c_high = 12, c_low = 9, c_close = 11, c_volume = 100\<rparr>) no_indicators = Some out
        \<and> bullish_p (probs out) = fst p \<and> bearish_p (probs out) = fst (snd p)
        \<and> neutral_p (probs out) = snd (snd p)
        \<and> bullish_p (probs out) + bearish_p (probs out) + neutral_p (probs out) = 1)
   \<and> (\<exists>f p out. lgbm_extract_features (replicate 5 \<lparr>timestamp = 0, c_open = 10, c_high = 12, c_low = 9, c_close = 11, c_volume = 100\<rparr>) no_indicators = Some f
        \<and> fst (lgbm_signals f) + snd (lgbm_signals f) \<le> 9
        \<and> lgbm_raw_probs f = Some p
        \<and> snd (snd p) = 3 / of_int (fst (lgbm_signals f) + snd (lgbm_signals f) + 3)
        \<and> 1 / 10 < snd (snd p)
        \<and> max (snd (snd p)) (1 / 10) = snd (snd p)
        \<and> lgbm_predict (replicate 5 \<lparr>timestamp = 0, c_open = 10, c_high = 12, c_low = 9, c_close = 11, c_volume = 100\<rparr>) no_indicators = Some out
        \<and> bullish_p (probs out) = fst p \<and> bearish_p (probs out) = fst (snd p)
        \<and> neutral_p (probs out) = snd (snd p)
        \<and> bullish_p (probs out) + bearish_p (probs out) + neutral_p (probs out) = 1)"
    by (rule mp [OF neutral_floor_never_binds h])
qed

text \<open>
  C4. For every candle sequence and indicator set, each scorer returns a prediction whose
  reported probabilities (the neutral one after its floor of 0.1) sum to 1 within 1e-6,
  each of them between 0 and 1.
\<close>

theorem scorer_probabilities_normalised:
  "(\<exists>p. patchtst_predict candles ind = Some p
        \<and> \<bar>bullish_p (probs p) + bearish_p (probs p) + neutral_p (probs p) - 1\<bar> \<le> 1 / 10 ^ 6
        \<and> 0 \<le> bullish_p (probs p) \<and> bullish_p (probs p) \<le> 1
        \<and> 0 \<le> bearish_p (probs p) \<and> bearish_p (probs p) \<le> 1
        \<and> 0 \<le> neutral_p (probs p) \<and> neutral_p (probs p) \<le> 1)
   \<and> (\<exists>p. lgbm_predict candles ind = Some p
        \<and> \<bar>bullish_p (probs p) + bearish_p (probs p) + neutral_p (probs p) - 1\<bar> \<le> 1 / 10 ^ 6
        \<and> 0 \<le> bullish_p (probs p) \<and> bullish_p (probs p) \<le> 1
        \<and> 0 \<le> bearish_p (probs p) \<and> bearish_p (probs p) \<le> 1
        \<and> 0 \<le> neutral_p (probs p) \<and> neutral_p (probs p) \<le> 1)"
proof -
  have v: "\<bar>bullish_p (probs p) + bearish_p (probs p) + neutral_p (probs p) - 1\<bar> \<le> 1 / 10 ^ 6
        \<and> 0 \<le> bullish_p (probs p) \<and> bullish_p (probs p) \<le> 1
        \<and> 0 \<le> bearish_p (probs p) \<and> bearish_p (probs p) \<le> 1
        \<and> 0 \<le> neutral_p (probs p) \<and> neutral_p (probs p) \<le> 1"
    if "valid_prediction p" for p
  proof -
    from that have s: "bullish_p (probs p) + bearish_p (probs p) + neutral_p (probs p) = 1"
      and nn: "0 \<le> bullish_p (probs p)" "0 \<le> bearish_p (probs p)" "0 \<le> neutral_p (probs p)"
      by (simp_all add: valid_prediction_def)
    have "\<bar>bullish_p (probs p) + bearish_p (probs p) + neutral_p (probs p) - 1\<bar> \<le> 1 / 10 ^ 6"
      by (simp add: s)
    moreover have "bullish_p (probs p) \<le> 1" "bearish_p (probs p) \<le> 1" "neutral_p (probs p) \<le> 1"
      using s nn by linarith+
    ultimately show ?thesis using nn by simp
  qed
  show ?thesis
    using patchtst_predict_valid [of candles ind] lgbm_predict_valid [of candles ind] v
    by blast
qed

text \<open>
  C7. With fewer than five candles, whatever the indicators, both scorers return the
  fixed neutral prediction: direction neutral, confidence 33, probabilities 0.33, 0.33
  and 0.34.
\<close>

theorem scorers_neutral_on_short_input:
  "length candles < 5 \<longrightarrow>
     patchtst_predict candles ind =
       Some \<lparr>direction = neutral, confidence = 33,
             probs = \<lparr>bullish_p = 0.33, bearish_p = 0.33, neutral_p = 0.34\<rparr>\<rparr>
     \<and> lgbm_predict candles ind =
       Some \<lparr>direction = neutral, confidence = 33,
             probs = \<lparr>bullish_p = 0.33, bearish_p = 0.33, neutral_p = 0.34\<rparr>\<rparr>"
  by (simp add: patchtst_predict_short lgbm_predict_short patchtst_neutral_prediction_def
      lgbm_neutral_prediction_def)

theorem scorers_neutral_on_short_input_witness:
  "length [\<lparr>timestamp = 0, c_open = 10, c_high = 12, c_low = 9, c_close = 11, c_volume = 100\<rparr>] < 5
   \<and> patchtst_predict
         [\<lparr>timestamp = 0, c_open = 10, c_high = 12, c_low = 9, c_close = 11, c_volume = 100\<rparr>]
         no_indicators =
       Some \<lparr>direction = neutral, confidence = 33,
             probs = \<lparr>bullish_p = 0.33, bearish_p = 0.33, neutral_p = 0.34\<rparr>\<rparr>
   \<and> lgbm_predict
         [\<lparr>timestamp = 0, c_open = 10, c_high = 12, c_low = 9, c_close = 11, c_volume = 100\<rparr>]
         no_indicators =
       Some \<lparr>direction = neutral, confidence = 33,
             probs = \<lparr>bullish_p = 0.33, bearish_p = 0.33, neutral_p = 0.34\<rparr>\<rparr>"
  using scorers_neutral_on_short_input
    [of "[\<lparr>timestamp = 0, c_open = 10, c_high = 12, c_low = 9, c_close = 11, c_volume = 100\<rparr>]"
        no_indicators]
  by simp

text \<open>
  C6. With fewer than period + 1 = 15 closes the RSI computation returns exactly 50;
  in particular every input of three closes does.
\<close>

theorem rsi_short_input:
  "(length closes < 14 + 1 \<longrightarrow> calculate_rsi closes 14 = Finite 50)
   \<and> calculate_rsi [c1, c2, c3] 14 = Finite 50"
  by (simp add: calculate_rsi_def)

theorem rsi_short_input_witness:
  "length [101, 99, 100 :: real] < 14 + 1 \<and> calculate_rsi [101, 99, 100] 14 = Finite 50"
  using rsi_short_input [of "[101, 99, 100]"] by simp

text \<open>
  C5. The RSI of closes of magnitude at most 1e306, whose fourteen gains and losses sum
  without overflow, is a finite number between 0 and 100 inclusive. Without the bound
  the sums can overflow and the RSI is not a number: on the sixteen finite closes
  \<open>2^1023, 0, 2^1023, 0, \<dots>\<close> the average gain and the average loss are both infinite,
  and their ratio is \<^verbatim>\<open>nan\<close>.
\<close>

theorem rsi_in_range_without_overflow:
  "(\<forall>c \<in> set closes. \<bar>c\<bar> \<le> 10 ^ 306) \<longrightarrow>
     (\<exists>r. calculate_rsi closes 14 = Finite r \<and> 0 \<le> r \<and> r \<le> 100)"
  using calculate_rsi_bounded [of closes] by blast

theorem rsi_in_range_without_overflow_witness:
  "list_all (\<lambda>c::real. \<bar>c\<bar> \<le> 10 ^ 306) [10, 11, 10, 12, 11, 13, 12, 14, 13, 15, 14, 16, 15, 17, 16, 18]
   \<and> (\<exists>r. calculate_rsi [10, 11, 10, 12, 11, 13, 12, 14, 13, 15, 14, 16, 15, 17, 16, 18] 14 = Finite r \<and> 0 \<le> r \<and> r \<le> 100)"
proof (rule conjI)
  show "list_all (\<lambda>c::real. \<bar>c\<bar> \<le> 10 ^ 306) [10, 11, 10, 12, 11, 13, 12, 14, 13, 15, 14, 16, 15, 17, 16, 18]"
    by simp
  then have h: "\<forall>c \<in> set [10, 11, 10, 12, 11, 13, 12, 14, 13, 15, 14, 16, 15, 17, 16, 18]. \<bar>c::real\<bar> \<le> 10 ^ 306"
    unfolding list_all_iff .
  show "\<exists>r. calculate_rsi [10, 11, 10, 12, 11, 13, 12, 14, 13, 15, 14, 16, 15, 17, 16, 18] 14 = Finite r \<and> 0 \<le> r \<and> r \<le> 100"
    by (rule mp [OF rsi_in_range_without_overflow h])
qed

theorem rsi_overflow_counterexample:
  "calculate_rsi [2 ^ 1023, 0, 2 ^ 1023, 0, 2 ^ 1023, 0, 2 ^ 1023, 0, 2 ^ 1023, 0, 2 ^ 1023, 0, 2 ^ 1023, 0, 2 ^ 1023, 0] 14 = NaN"
  by (rule calculate_rsi_overflow)

text \<open>
  C8. The warnings are the notices of the specification, in its order, except when the
  RSI is exactly 0.0: the truth test \<^verbatim>\<open>if rsi and \<dots>\<close> then skips the RSI notice, although
  0.0 is below 30. Fifteen candles whose closes fall from 15 to 1 have no gain, so their
  RSI is 0.0; the pipeline returns no warning for them, where the specification lists the
  oversold notice.
\<close>

theorem oversold_notice_missing_at_rsi_zero:
  "generate_warnings prediction technical =
     (if rsi technical = Some (Finite 0)
      then spec_warnings prediction (technical\<lparr>rsi := None\<rparr>)
      else spec_warnings prediction technical)
   \<and> core_pipeline (map (\<lambda>p. \<lparr>timestamp = 0, c_open = p + 1, c_high = p + 1, c_low = p, c_close = p, c_volume = 1000\<rparr>)
        [15, 14, 13, 12, 11, 10, 9, 8, 7, 6, 5, 4, 3, 2, 1]) =
       Some \<lparr>i_prediction =
               \<lparr>direction = bearish, confidence = 70.9,
             probs = \<lparr>bullish_p = 0, bearish_p = 70.9, neutral_p = 29.1\<rparr>,
             model_agreement = True, transformer_signal = bearish, lgbm_signal = bearish\<rparr>,
             i_technical =
               \<lparr>rsi = Some (Finite 0),
             macd = Some \<lparr>macd_line = 0, signal_line = 0, histogram = 0\<rparr>,
             ema = [(9, 5)], sma = [],
             volume = Some \<lparr>trend = stable, ratio = 1, recent_average = Some 1000,
                             overall_average = Some 1000\<rparr>\<rparr>,
             i_risk_level = low, i_warnings = []\<rparr>
   \<and> spec_warnings
         \<lparr>direction = bearish, confidence = 70.9,
             probs = \<lparr>bullish_p = 0, bearish_p = 70.9, neutral_p = 29.1\<rparr>,
             model_agreement = True, transformer_signal = bearish, lgbm_signal = bearish\<rparr>
         \<lparr>rsi = Some (Finite 0),
             macd = Some \<lparr>macd_line = 0, signal_line = 0, histogram = 0\<rparr>,
             ema = [(9, 5)], sma = [],
             volume = Some \<lparr>trend = stable, ratio = 1, recent_average = Some 1000,
                             overall_average = Some 1000\<rparr>\<rparr> = [rsi_warning ''oversold'']"
  by (intro conjI generate_warnings_char core_pipeline_falling spec_warnings_falling)




end
